theory Spec2Isabelle
  imports Main
begin

section \<open>Python values shared by the scripts\<close>

text \<open>
  A Python \<open>str\<close> is modelled as a \<open>string\<close> (the list of its bytes); \<open>Optional[str]\<close> is
  \<open>string option\<close>; a \<open>dict\<close> from strings is a map. An exception that leaves a function is
  a value: \<open>SystemExit code message\<close> is \<open>sys.exit(code)\<close> after \<open>message\<close> went to stderr
  (what \<open>die\<close> and \<open>die_trace\<close> do), the other constructors are exceptions that no handler
  of the scripts catches.
\<close>

datatype exn =
    SystemExit nat string
  | KeyError string
  | CalledProcessError
  | FileNotFoundError

text \<open>\<open>if x:\<close> on an \<open>Optional[str]\<close>: neither \<open>None\<close> nor the empty string.\<close>

fun truthy :: "string option \<Rightarrow> bool" where
  "truthy None = False"
| "truthy (Some v) = (v \<noteq> [])"

text \<open>What an f-string prints for \<open>{x}\<close> when \<open>x\<close> is an \<open>Optional[str]\<close>.\<close>

fun fmt :: "string option \<Rightarrow> string" where
  "fmt None = ''None''"
| "fmt (Some v) = v"

text \<open>\<open>'...'\<close> inside a message: the text between two apostrophes.\<close>

definition quoted :: "string \<Rightarrow> string" where
  "quoted v = CHR 0x27 # v @ [CHR 0x27]"

text \<open>\<open>sep.join(xs)\<close>.\<close>

fun join :: "string \<Rightarrow> string list \<Rightarrow> string" where
  "join sep [] = []"
| "join sep [x] = x"
| "join sep (x # y # ys) = x @ sep @ join sep (y # ys)"

text \<open>\<open>bytes.hex()\<close>: two lower-case hexadecimal digits per byte.\<close>

definition hex_digit :: "nat \<Rightarrow> char" where
  "hex_digit n = ''0123456789abcdef'' ! (n mod 16)"

definition hex :: "string \<Rightarrow> string" where
  "hex bs = concat (map (\<lambda>c. [hex_digit (of_char c div 16), hex_digit (of_char c mod 16)]) bs)"

text \<open>\<open>os.path.join(a, b)\<close> of \<open>posixpath\<close>.\<close>

definition path_join :: "string \<Rightarrow> string \<Rightarrow> string" where
  "path_join a b =
     (if b \<noteq> [] \<and> hd b = CHR ''/'' then b
      else if a = [] \<or> last a = CHR ''/'' then a @ b
      else a @ ''/'' @ b)"

section \<open>config.py: the disk configurator\<close>

subsection \<open>State\<close>

text \<open>
  The fields of class \<open>DiskConfigurator\<close>, in the order \<open>__init__\<close> sets them. The last
  field is not an attribute: it is the standard output of the process, the only place
  where the placeholders \<open>create_resolve_entry\<close> and \<open>create_resolve_entry_device\<close> leave
  a trace of the resolve entry they were asked to register.
\<close>

record DiskConfigurator =
  TMP_DIR :: string
  ROOT_MOUNTPOINT :: string
  GENTOO_INSTALL_REPO_BIND :: string
  UUID_STORAGE_DIR :: string
  LUKS_HEADER_BACKUP_DIR :: string
  USED_RAID :: bool
  USED_LUKS :: bool
  USED_ZFS :: bool
  USED_BTRFS :: bool
  USED_ENCRYPTION :: bool
  NO_PARTITIONING_OR_FORMATTING :: bool
  DISK_ACTIONS :: "string list"
  DISK_DRACUT_CMDLINE :: "string list"
  DISK_ID_TO_RESOLVABLE :: "string \<rightharpoonup> string"
  DISK_ID_PART_TO_GPT_ID :: "string \<rightharpoonup> string"
  DISK_ID_TO_UUID :: "string \<rightharpoonup> string"
  DISK_GPT_HAD_SIZE_REMAINING :: "string \<rightharpoonup> bool"
  DISK_ID_EFI :: "string option"
  DISK_ID_BIOS :: "string option"
  DISK_ID_SWAP :: "string option"
  DISK_ID_ROOT :: "string option"
  DISK_ID_ROOT_TYPE :: "string option"
  DISK_ID_ROOT_MOUNT_OPTS :: "string option"
  STDOUT :: "string list"

definition init :: "string \<Rightarrow> DiskConfigurator" where
  "init base_dir =
     \<lparr> TMP_DIR = base_dir,
       ROOT_MOUNTPOINT = path_join base_dir ''root'',
       GENTOO_INSTALL_REPO_BIND = path_join base_dir ''bind'',
       UUID_STORAGE_DIR = path_join base_dir ''uuids'',
       LUKS_HEADER_BACKUP_DIR = path_join base_dir ''luks-headers'',
       USED_RAID = False,
       USED_LUKS = False,
       USED_ZFS = False,
       USED_BTRFS = False,
       USED_ENCRYPTION = False,
       NO_PARTITIONING_OR_FORMATTING = False,
       DISK_ACTIONS = [],
       DISK_DRACUT_CMDLINE = [],
       DISK_ID_TO_RESOLVABLE = Map.empty,
       DISK_ID_PART_TO_GPT_ID = Map.empty,
       DISK_ID_TO_UUID = Map.empty,
       DISK_GPT_HAD_SIZE_REMAINING = Map.empty,
       DISK_ID_EFI = None,
       DISK_ID_BIOS = None,
       DISK_ID_SWAP = None,
       DISK_ID_ROOT = None,
       DISK_ID_ROOT_TYPE = None,
       DISK_ID_ROOT_MOUNT_OPTS = None,
       STDOUT = [] \<rparr>"

subsection \<open>Methods as state transformers\<close>

text \<open>
  Every method of the class returns \<open>None\<close> or raises, and mutates the object on the way.
  A method is a function from the object before the call to the exception that left it
  (\<open>None\<close> when it returned) and the object after the call. The object after a raise is
  kept: \<open>sys.exit\<close> raises \<open>SystemExit\<close>, which the caller can catch (the example at the end
  of config.py does), so what a rejected call has already written can be observed.
\<close>

type_synonym operation = "DiskConfigurator \<Rightarrow> exn option \<times> DiskConfigurator"

definition skip :: operation where
  "skip s = (None, s)"

definition raise :: "exn \<Rightarrow> operation" where
  "raise e s = (Some e, s)"

text \<open>The statements of a body, run in order; the first one that raises ends the body.\<close>

fun block :: "operation list \<Rightarrow> operation" where
  "block [] s = (None, s)"
| "block (m # ms) s = (case m s of (None, s') \<Rightarrow> block ms s' | (Some e, s') \<Rightarrow> (Some e, s'))"

definition only_if :: "bool \<Rightarrow> operation \<Rightarrow> operation" where
  "only_if b m = (if b then m else skip)"

text \<open>An assignment to attributes of \<open>self\<close>, and \<open>print\<close>.\<close>

definition assign :: "(DiskConfigurator \<Rightarrow> DiskConfigurator) \<Rightarrow> operation" where
  "assign f s = (None, f s)"

definition print_line :: "string \<Rightarrow> operation" where
  "print_line line = assign (\<lambda>s. s\<lparr>STDOUT := STDOUT s @ [line]\<rparr>)"

definition append_action :: "string \<Rightarrow> operation" where
  "append_action a = assign (\<lambda>s. s\<lparr>DISK_ACTIONS := DISK_ACTIONS s @ [a]\<rparr>)"

subsection \<open>Messages and serialized actions\<close>

text \<open>
  The f-strings of config.py, one definition each, named after what they render. The
  methods below use them where the source has the f-string inline.
\<close>

definition only_one_of_message :: "string list \<Rightarrow> string" where
  "only_one_of_message keys = ''Only one of the arguments ('' @ join '', '' keys @ '') can be given''"

definition required_message :: "string \<Rightarrow> string" where
  "required_message arg_name = ''Argument '' @ quoted arg_name @ '' is required for ID creation.''"

definition invalid_character_message :: string where
  "invalid_character_message = ''Identifier contains invalid character '' @ quoted '';''"

definition already_exists_message :: "string \<Rightarrow> string" where
  "already_exists_message id_val = ''Identifier '' @ quoted id_val @ '' already exists''"

definition not_found_message :: "string \<Rightarrow> string option \<Rightarrow> string" where
  "not_found_message arg_name id_val =
     ''Identifier '' @ arg_name @ ''='' @ quoted (fmt id_val) @ '' not found''"

definition invalid_option_message :: "string \<Rightarrow> string option \<Rightarrow> string list \<Rightarrow> string" where
  "invalid_option_message opt arg_val valid_options =
     ''Invalid option '' @ opt @ ''='' @ quoted (fmt arg_val)
       @ '', must be one of ('' @ join '', '' valid_options @ '')''"

definition remaining_used_message :: "string \<Rightarrow> string" where
  "remaining_used_message id_val =
     ''Cannot add another partition to table ('' @ id_val @ '') after size=remaining was used''"

definition unsupported_root_fs_message :: string where
  "unsupported_root_fs_message = ''Unsupported root filesystem type''"

definition resolve_entry_line :: "string \<Rightarrow> string \<Rightarrow> string \<Rightarrow> string" where
  "resolve_entry_line new_id resolve_type resolve_value =
     ''DEBUG: Registered '' @ new_id @ '' -> '' @ resolve_type @ ''='' @ resolve_value"

definition resolve_entry_device_line :: "string \<Rightarrow> string \<Rightarrow> string" where
  "resolve_entry_device_line new_id device = ''DEBUG: Registered '' @ new_id @ '' -> device='' @ device"

definition existing_action :: "string \<Rightarrow> string \<Rightarrow> string" where
  "existing_action new_id device = ''action=existing new_id='' @ new_id @ '' device='' @ device @ '';''"

text \<open>
  \<open>action = f"action=create_gpt new_id={new_id}"\<close>, then \<open>device=\<close> and \<open>id=\<close> for the
  arguments that are given, then \<open>";"\<close>.
\<close>

definition create_gpt_action :: "string \<Rightarrow> string option \<Rightarrow> string option \<Rightarrow> string" where
  "create_gpt_action new_id device id_val =
     ''action=create_gpt new_id='' @ new_id
       @ (if truthy device then '' device='' @ the device else [])
       @ (if truthy id_val then '' id='' @ the id_val else [])
       @ '';''"

definition create_partition_action :: "string \<Rightarrow> string \<Rightarrow> string \<Rightarrow> string \<Rightarrow> string" where
  "create_partition_action new_id id_val size_val type =
     ''action=create_partition new_id='' @ new_id @ '' id='' @ id_val
       @ '' size='' @ size_val @ '' type='' @ type @ '';''"

definition create_luks_action :: string where
  "create_luks_action = ''action=create_luks new_id=part_luks_root name=root id=part_root;''"

definition format_action :: "string \<Rightarrow> string \<Rightarrow> string \<Rightarrow> string" where
  "format_action id_val type label = ''action=format id='' @ id_val @ '' type='' @ type @ '' label='' @ label @ '';''"

definition luks_cmdline :: "string \<Rightarrow> string" where
  "luks_cmdline uuid = ''rd.luks.uuid='' @ uuid"

subsection \<open>Helper functions of config.py\<close>

definition die_trace :: "nat \<Rightarrow> string \<Rightarrow> operation" where
  "die_trace exit_code message = raise (SystemExit exit_code message)"

text \<open>The placeholder of config.py: the first four characters of the encoded identifier.\<close>

definition load_or_generate_uuid :: "string \<Rightarrow> string" where
  "load_or_generate_uuid base64_id = ''STUB-UUID-'' @ take 4 base64_id"

definition create_resolve_entry :: "string \<Rightarrow> string \<Rightarrow> string \<Rightarrow> operation" where
  "create_resolve_entry new_id resolve_type resolve_value =
     print_line (resolve_entry_line new_id resolve_type resolve_value)"

definition create_resolve_entry_device :: "string \<Rightarrow> string \<Rightarrow> operation" where
  "create_resolve_entry_device new_id device =
     print_line (resolve_entry_device_line new_id device)"

subsection \<open>Utility methods\<close>

definition only_one_of :: "(string \<rightharpoonup> string) \<Rightarrow> string list \<Rightarrow> operation" where
  "only_one_of arguments keys =
     (let present_keys = filter (\<lambda>key. arguments key \<noteq> None) keys
      in only_if (length present_keys > 1) (die_trace 2 (only_one_of_message keys)))"

text \<open>
  The three checks of \<open>create_new_id\<close> are separate \<open>if\<close> statements; each ends in
  \<open>die_trace\<close>, which does not return, so they read as one chain.
\<close>

definition create_new_id :: "(string \<rightharpoonup> string) \<Rightarrow> string \<Rightarrow> operation" where
  "create_new_id arguments arg_name s =
     (let id_val = arguments arg_name in
      if \<not> truthy id_val then die_trace 2 (required_message arg_name) s
      else if CHR '';'' \<in> set (the id_val) then die_trace 2 invalid_character_message s
      else if DISK_ID_TO_UUID s (the id_val) \<noteq> None then
        die_trace 2 (already_exists_message (the id_val)) s
      else
        (let base64_id = hex (the id_val)
         in assign (\<lambda>s. s\<lparr>DISK_ID_TO_UUID :=
                    (DISK_ID_TO_UUID s)(the id_val \<mapsto> load_or_generate_uuid base64_id)\<rparr>) s))"

text \<open>
  \<open>id_val not in self.DISK_ID_TO_UUID\<close> is true for \<open>None\<close>: the keys are strings.
\<close>

definition verify_existing_id :: "(string \<rightharpoonup> string) \<Rightarrow> string \<Rightarrow> operation" where
  "verify_existing_id arguments arg_name s =
     (let id_val = arguments arg_name in
      only_if (case id_val of None \<Rightarrow> True | Some v \<Rightarrow> DISK_ID_TO_UUID s v = None)
        (die_trace 2 (not_found_message arg_name id_val)) s)"

definition verify_option :: "(string \<rightharpoonup> string) \<Rightarrow> string \<Rightarrow> string list \<Rightarrow> operation" where
  "verify_option arguments opt valid_options =
     (let arg_val = arguments opt in
      only_if (case arg_val of None \<Rightarrow> True | Some v \<Rightarrow> v \<notin> set valid_options)
        (die_trace 2 (invalid_option_message opt arg_val valid_options)))"

subsection \<open>Disk action methods\<close>

text \<open>\<open>self.DISK_ID_TO_UUID[key]\<close> raises \<open>KeyError\<close> for a key that is not there.\<close>

definition with_uuid :: "string \<Rightarrow> (string \<Rightarrow> operation) \<Rightarrow> operation" where
  "with_uuid key body s =
     (case DISK_ID_TO_UUID s key of
        None \<Rightarrow> raise (KeyError key) s
      | Some uuid \<Rightarrow> body uuid s)"

text \<open>\<open>if v: arguments[key] = v\<close>.\<close>

definition set_if :: "string \<Rightarrow> string option \<Rightarrow> (string \<rightharpoonup> string) \<Rightarrow> (string \<rightharpoonup> string)" where
  "set_if key v arguments = (if truthy v then arguments(key \<mapsto> the v) else arguments)"

definition register_existing :: "string \<Rightarrow> string \<Rightarrow> operation" where
  "register_existing new_id device =
     (let arguments = [''new_id'' \<mapsto> new_id, ''device'' \<mapsto> device] in
      block
       [create_new_id arguments ''new_id'',
        create_resolve_entry_device new_id device,
        append_action (existing_action new_id device)])"

definition create_gpt :: "string \<Rightarrow> string option \<Rightarrow> string option \<Rightarrow> operation" where
  "create_gpt new_id device id_val =
     (let arguments = set_if ''id'' id_val (set_if ''device'' device [''new_id'' \<mapsto> new_id]) in
      block
       [only_one_of arguments [''device'', ''id''],
        create_new_id arguments ''new_id'',
        only_if (truthy id_val) (verify_existing_id arguments ''id''),
        with_uuid new_id (\<lambda>uuid. create_resolve_entry new_id ''ptuuid'' uuid),
        append_action (create_gpt_action new_id device id_val)])"

text \<open>The partition types that \<open>create_partition\<close> passes to \<open>verify_option\<close>.\<close>

definition partition_types :: "string list" where
  "partition_types = [''bios'', ''efi'', ''swap'', ''raid'', ''luks'', ''linux'']"

definition create_partition :: "string \<Rightarrow> string \<Rightarrow> string \<Rightarrow> string \<Rightarrow> operation" where
  "create_partition new_id id_val size_val type =
     (let arguments = [''new_id'' \<mapsto> new_id, ''id'' \<mapsto> id_val, ''size'' \<mapsto> size_val, ''type'' \<mapsto> type] in
      block
       [create_new_id arguments ''new_id'',
        verify_existing_id arguments ''id'',
        verify_option arguments ''type'' partition_types,
        (\<lambda>s. only_if (DISK_GPT_HAD_SIZE_REMAINING s id_val = Some True)
               (die_trace 1 (remaining_used_message id_val)) s),
        only_if (size_val = ''remaining'')
          (assign (\<lambda>s. s\<lparr>DISK_GPT_HAD_SIZE_REMAINING := (DISK_GPT_HAD_SIZE_REMAINING s)(id_val \<mapsto> True)\<rparr>)),
        assign (\<lambda>s. s\<lparr>DISK_ID_PART_TO_GPT_ID := (DISK_ID_PART_TO_GPT_ID s)(new_id \<mapsto> id_val)\<rparr>),
        with_uuid new_id (\<lambda>uuid. create_resolve_entry new_id ''partuuid'' uuid),
        append_action (create_partition_action new_id id_val size_val type)])"

subsection \<open>The single-disk layout\<close>

definition create_classic_single_disk_layout ::
    "string \<Rightarrow> string \<Rightarrow> string \<Rightarrow> string \<Rightarrow> string \<Rightarrow> operation" where
  "create_classic_single_disk_layout device swap type luks root_fs =
     (let use_luks = (luks = ''true'');
          root_id = (if use_luks then ''part_luks_root'' else ''part_root'')
      in block
       [create_gpt ''gpt'' (Some device) None,
        create_partition (''part_'' @ type) ''gpt'' ''1GiB'' type,
        only_if (swap \<noteq> ''false'') (create_partition ''part_swap'' ''gpt'' swap ''swap''),
        create_partition ''part_root'' ''gpt'' ''remaining'' ''linux'',
        only_if use_luks
          (block
            [assign (\<lambda>s. s\<lparr>USED_LUKS := True\<rparr>),
             assign (\<lambda>s. s\<lparr>USED_ENCRYPTION := True\<rparr>),
             append_action create_luks_action,
             with_uuid ''part_luks_root'' (\<lambda>uuid.
               assign (\<lambda>s. s\<lparr>DISK_DRACUT_CMDLINE := DISK_DRACUT_CMDLINE s @ [luks_cmdline uuid]\<rparr>))]),
        append_action (format_action (''part_'' @ type) type type),
        only_if (swap \<noteq> ''false'') (append_action (format_action ''part_swap'' ''swap'' ''swap'')),
        append_action (format_action root_id root_fs ''root''),
        (if type = ''efi''
         then assign (\<lambda>s. s\<lparr>DISK_ID_EFI := Some (''part_'' @ type)\<rparr>)
         else assign (\<lambda>s. s\<lparr>DISK_ID_BIOS := Some (''part_'' @ type)\<rparr>)),
        only_if (swap \<noteq> ''false'') (assign (\<lambda>s. s\<lparr>DISK_ID_SWAP := Some ''part_swap''\<rparr>)),
        assign (\<lambda>s. s\<lparr>DISK_ID_ROOT := Some root_id\<rparr>),
        assign (\<lambda>s. s\<lparr>DISK_ID_ROOT_TYPE := Some root_fs\<rparr>),
        (if root_fs = ''btrfs''
         then assign (\<lambda>s. s\<lparr>DISK_ID_ROOT_MOUNT_OPTS :=
                Some ''defaults,noatime,compress-force=zstd,subvol=/root''\<rparr>)
         else if root_fs = ''ext4''
         then assign (\<lambda>s. s\<lparr>DISK_ID_ROOT_MOUNT_OPTS :=
                Some ''defaults,noatime,errors=remount-ro,discard''\<rparr>)
         else die_trace 1 unsupported_root_fs_message)])"

subsection \<open>Calls of the builder, and states reached by them\<close>

text \<open>
  A call of one of the four public methods, as data, so that a statement can range over
  every call and over every sequence of calls. \<open>after_calls cs s\<close> is the object after
  the calls \<open>cs\<close> were made on \<open>s\<close> one after the other, whether each returned or raised.
\<close>

datatype builder_call =
    Register_existing string string
  | Create_gpt string "string option" "string option"
  | Create_partition string string string string
  | Create_classic_single_disk_layout string string string string string

fun call :: "builder_call \<Rightarrow> operation" where
  "call (Register_existing new_id device) = register_existing new_id device"
| "call (Create_gpt new_id device id_val) = create_gpt new_id device id_val"
| "call (Create_partition new_id id_val size_val type) = create_partition new_id id_val size_val type"
| "call (Create_classic_single_disk_layout device swap type luks root_fs) =
     create_classic_single_disk_layout device swap type luks root_fs"

fun after_calls :: "builder_call list \<Rightarrow> DiskConfigurator \<Rightarrow> DiskConfigurator" where
  "after_calls [] s = s"
| "after_calls (c # cs) s = after_calls cs (snd (call c s))"

text \<open>
  An identifier that \<open>create_new_id\<close> accepts on \<open>s\<close>, and the object after it did:
  the only attribute it writes is \<open>DISK_ID_TO_UUID\<close>.
\<close>

definition valid_new_id :: "DiskConfigurator \<Rightarrow> string \<Rightarrow> bool" where
  "valid_new_id s new_id =
     (new_id \<noteq> [] \<and> CHR '';'' \<notin> set new_id \<and> DISK_ID_TO_UUID s new_id = None)"

definition registered :: "string \<Rightarrow> DiskConfigurator \<Rightarrow> DiskConfigurator" where
  "registered new_id s =
     s\<lparr>DISK_ID_TO_UUID := (DISK_ID_TO_UUID s)(new_id \<mapsto> load_or_generate_uuid (hex new_id))\<rparr>"

section \<open>utils.py: the UUID store and the device resolver\<close>

subsection \<open>Strings\<close>

text \<open>
  \<open>str.isspace\<close>, \<open>str.strip\<close> and \<open>str.lower\<close> on the ASCII range, which is what UUIDs,
  device paths and the output of the probe utilities are made of.
\<close>

definition isspace :: "char \<Rightarrow> bool" where
  "isspace c = (of_char c \<in> {9, 10, 11, 12, 13, 28, 29, 30, 31, 32 :: nat})"

definition lstrip :: "string \<Rightarrow> string" where
  "lstrip v = dropWhile isspace v"

definition rstrip :: "string \<Rightarrow> string" where
  "rstrip v = rev (dropWhile isspace (rev v))"

definition strip :: "string \<Rightarrow> string" where
  "strip v = rstrip (lstrip v)"

definition lower_char :: "char \<Rightarrow> char" where
  "lower_char c = (let n = of_char c :: nat in if 65 \<le> n \<and> n \<le> 90 then char_of (n + 32) else c)"

definition lower :: "string \<Rightarrow> string" where
  "lower v = map lower_char v"

definition startswith :: "string \<Rightarrow> string \<Rightarrow> bool" where
  "startswith v p = (take (length p) v = p)"

text \<open>
  \<open>open(path, 'r').read()\<close> is in text mode with universal newlines: \<open>\r\n\<close> and a lone
  \<open>\r\<close> are read as \<open>\n\<close>.
\<close>

fun universal_newlines :: "string \<Rightarrow> string" where
  "universal_newlines [] = []"
| "universal_newlines [c] = (if c = CHR 0x0D then [CHR 0x0A] else [c])"
| "universal_newlines (c # d # cs) =
     (if c = CHR 0x0D \<and> d = CHR 0x0A then CHR 0x0A # universal_newlines cs
      else if c = CHR 0x0D then CHR 0x0A # universal_newlines (d # cs)
      else c # universal_newlines (d # cs))"

text \<open>\<open>entry.split(':', 1)\<close> for an entry that contains a colon.\<close>

definition split_colon :: "string \<Rightarrow> string \<times> string" where
  "split_colon entry =
     (takeWhile (\<lambda>c. c \<noteq> CHR '':'') entry, tl (dropWhile (\<lambda>c. c \<noteq> CHR '':'') entry))"

subsection \<open>The three regular expressions\<close>

text \<open>
  \<open>re.search\<close> tries the pattern at every position from the left and returns the first
  match. Each of the three patterns of utils.py has at most one way to match at a given
  position (a greedy class followed by a character outside the class), so a pattern is a
  function from the text at a position to group 1 of the match there.
\<close>

fun first_match :: "(string \<Rightarrow> 'a option) \<Rightarrow> string \<Rightarrow> 'a option" where
  "first_match m [] = m []"
| "first_match m (c # cs) = (case m (c # cs) of Some g \<Rightarrow> Some g | None \<Rightarrow> first_match m cs)"

text \<open>
  A pattern that starts with \<open>^\<close> under \<open>re.MULTILINE\<close> is tried at the start of the text
  and after every \<open>\n\<close> only; \<open>bol\<close> says whether the position is one of those.
\<close>

fun first_match_bol :: "(string \<Rightarrow> 'a option) \<Rightarrow> bool \<Rightarrow> string \<Rightarrow> 'a option" where
  "first_match_bol m bol [] = (if bol then m [] else None)"
| "first_match_bol m bol (c # cs) =
     (case (if bol then m (c # cs) else None) of
        Some g \<Rightarrow> Some g
      | None \<Rightarrow> first_match_bol m (c = CHR 0x0A) cs)"

definition is_quote :: "char \<Rightarrow> bool" where
  "is_quote c = (c = CHR 0x22 \<or> c = CHR 0x27)"

text \<open>\<open>DEVNAME=["']?([^"'\n]+)["']?\<close> at a position.\<close>

definition devname_at :: "string \<Rightarrow> string option" where
  "devname_at t =
     (if startswith t ''DEVNAME='' then
        (let r = drop 8 t;
             r' = (if r \<noteq> [] \<and> is_quote (hd r) then tl r else r);
             g = takeWhile (\<lambda>c. \<not> is_quote c \<and> c \<noteq> CHR 0x0A) r'
         in if g = [] then None else Some g)
      else None)"

definition search_devname :: "string \<Rightarrow> string option" where
  "search_devname text = first_match_bol devname_at True text"

text \<open>\<open>name="([^"]+)" ptuuid="PTUUID" partuuid=""\<close> at a position.\<close>

definition lsblk_at :: "string \<Rightarrow> string \<Rightarrow> string option" where
  "lsblk_at ptuuid t =
     (if startswith t (''name='' @ [CHR 0x22]) then
        (let r = drop 6 t;
             g = takeWhile (\<lambda>c. c \<noteq> CHR 0x22) r
         in if g \<noteq> [] \<and> startswith (drop (length g) r)
                 ([CHR 0x22] @ '' ptuuid='' @ [CHR 0x22] @ ptuuid @ [CHR 0x22]
                   @ '' partuuid='' @ [CHR 0x22, CHR 0x22])
            then Some g else None)
      else None)"

text \<open>
  \<open>array (\S+)\s+uuid=MDUUID\<close> at a position, under \<open>re.IGNORECASE\<close>: the literal parts
  are compared after lower-casing both sides.
\<close>

definition startswith_ci :: "string \<Rightarrow> string \<Rightarrow> bool" where
  "startswith_ci v p = startswith (lower v) (lower p)"

definition mdadm_at :: "string \<Rightarrow> string \<Rightarrow> string option" where
  "mdadm_at mduuid t =
     (if startswith_ci t ''array '' then
        (let r = drop 6 t;
             g = takeWhile (\<lambda>c. \<not> isspace c) r;
             r' = drop (length g) r;
             w = takeWhile isspace r'
         in if g \<noteq> [] \<and> w \<noteq> [] \<and> startswith_ci (drop (length w) r') (''uuid='' @ mduuid)
            then Some g else None)
      else None)"

subsection \<open>The operating system and the module's globals\<close>

text \<open>
  What the functions read from the system, and the two module-level variables they use.
  A path holds a text file, or something that \<open>os.path.exists\<close> sees and \<open>open\<close> fails
  on with the given error text. \<open>write_error\<close> is the \<open>OSError\<close> of \<open>os.makedirs\<close> and
  \<open>open(path, 'w')\<close> for a path that cannot be written, \<open>FileNotFoundError\<close> told apart
  because the handlers of \<open>load_or_generate_uuid\<close> do. \<open>run\<close> is \<open>subprocess.run\<close>: the
  exit status, standard output and standard error of a command, or no such executable.
  \<open>listdir\<close> is \<open>os.listdir\<close>, which raises for a directory that is not there.
  \<open>realpath\<close> is \<open>os.path.realpath\<close>, which does not raise.
\<close>

datatype node = File string | Unreadable string

datatype oserror = FileNotFound string | OtherOSError string

datatype proc = Completed nat string string | NotInstalled

record world =
  files :: "string \<rightharpoonup> node"
  write_error :: "string \<Rightarrow> oserror option"
  run :: "string list \<Rightarrow> proc"
  realpath :: "string \<Rightarrow> string"
  listdir :: "string \<Rightarrow> string list option"
  RESOLVABLE :: "string \<rightharpoonup> string"
  CACHED_LSBLK_OUTPUT :: "string option"

text \<open>
  \<open>RESOLVABLE\<close> is the global \<open>DISK_ID_TO_RESOLVABLE\<close> of utils.py (the name is taken by
  the attribute of the configurator). A function returns a value or raises. \<open>die\<close> prints
  the message and raises \<open>SystemExit\<close> with code 1; the signal it sends to the main
  process of the installer before that is not part of the state described here.
\<close>

datatype 'a result = Return 'a | Raise exn

definition die :: "string \<Rightarrow> 'a result" where
  "die message = Raise (SystemExit 1 message)"

definition STORAGE_DIR :: string where
  "STORAGE_DIR = ''/tmp/gentoo-install/uuids''"

subsection \<open>Messages of utils.py\<close>

definition read_failed_message :: "string \<Rightarrow> string \<Rightarrow> string" where
  "read_failed_message uuid_file e = ''Failed to read UUID file '' @ uuid_file @ '': '' @ e"

definition write_failed_message :: "string \<Rightarrow> string \<Rightarrow> string" where
  "write_failed_message uuid_file e = ''Failed to write UUID file '' @ uuid_file @ '': '' @ e"

definition uuidgen_failed_message :: "string \<Rightarrow> string" where
  "uuidgen_failed_message stderr = ''Failed to execute uuidgen: '' @ stderr"

definition blkid_failed_message :: "string option \<Rightarrow> string \<Rightarrow> string" where
  "blkid_failed_message device stderr =
     ''Error while executing blkid for device '' @ quoted (fmt device) @ '': '' @ stderr"

definition blkid_not_found_message :: "string \<Rightarrow> string" where
  "blkid_not_found_message tag_value = ''Could not find device by blkid tag '' @ quoted tag_value"

definition lsblk_failed_message :: "string \<Rightarrow> string" where
  "lsblk_failed_message stderr = ''Error while executing lsblk to cache output: '' @ stderr"

definition ptuuid_not_found_message :: "string \<Rightarrow> string" where
  "ptuuid_not_found_message ptuuid = ''Could not find PTUUID='' @ quoted ptuuid @ '' in lsblk output''"

definition mdadm_failed_message :: "string \<Rightarrow> string \<Rightarrow> string" where
  "mdadm_failed_message mduuid stderr =
     ''Error while executing mdadm to find array with UUID='' @ mduuid @ '': '' @ stderr"

definition mduuid_not_found_message :: "string \<Rightarrow> string" where
  "mduuid_not_found_message mduuid = ''Could not find UUID='' @ quoted mduuid @ '' in mdadm output''"

definition no_table_entry_message :: "string \<Rightarrow> string" where
  "no_table_entry_message id_val =
     ''Cannot resolve id='' @ quoted id_val @ '' to a block device (no table entry)''"

definition invalid_entry_message :: "string \<Rightarrow> string" where
  "invalid_entry_message entry = ''Invalid resolve entry format: '' @ quoted entry"

definition unknown_type_message :: "string \<Rightarrow> string" where
  "unknown_type_message entry = ''Cannot resolve '' @ quoted entry @ '' to device (unknown type)''"

subsection \<open>The UUID store\<close>

definition uuid_file_of :: "string \<Rightarrow> string" where
  "uuid_file_of base64_id = path_join STORAGE_DIR base64_id"

text \<open>
  \<open>load_or_generate_uuid\<close> of utils.py. A write either stores the whole text or fails
  and leaves the store as it was. The handlers of the second \<open>try\<close> are tried in the
  order \<open>CalledProcessError\<close>, \<open>FileNotFoundError\<close>, \<open>IOError\<close>, so a write that fails
  with \<open>FileNotFoundError\<close> is reported as a missing uuidgen.
\<close>

definition load_or_generate_uuid_utils :: "string \<Rightarrow> world \<Rightarrow> string result \<times> world" where
  "load_or_generate_uuid_utils base64_id w =
     (let uuid_file = uuid_file_of base64_id in
      case files w uuid_file of
        Some (File text) \<Rightarrow> (Return (strip (universal_newlines text)), w)
      | Some (Unreadable e) \<Rightarrow> (die (read_failed_message uuid_file e), w)
      | None \<Rightarrow>
          (case run w [''uuidgen'', ''-r''] of
             NotInstalled \<Rightarrow> (die ''uuidgen command not found.'', w)
           | Completed returncode stdout stderr \<Rightarrow>
               if returncode \<noteq> 0 then (die (uuidgen_failed_message stderr), w)
               else
                 (let uuid = strip stdout in
                  case write_error w uuid_file of
                    Some (FileNotFound e) \<Rightarrow> (die ''uuidgen command not found.'', w)
                  | Some (OtherOSError e) \<Rightarrow> (die (write_failed_message uuid_file e), w)
                  | None \<Rightarrow> (Return uuid, w\<lparr>files := (files w)(uuid_file \<mapsto> File uuid)\<rparr>))))"

subsection \<open>Probes\<close>

text \<open>
  \<open>_run_blkid_export\<close>: the first \<open>subprocess.run\<close> has \<open>check=True\<close> and is outside the
  \<open>try\<close>; the handler of the second catches \<open>CalledProcessError\<close> only.
\<close>

definition run_blkid_export :: "world \<Rightarrow> string option \<Rightarrow> string option \<Rightarrow> string result" where
  "run_blkid_export w device tag_value =
     (case run w [''blkid'', ''-g'', ''-c'', ''/dev/null''] of
        NotInstalled \<Rightarrow> Raise FileNotFoundError
      | Completed gc_returncode gc_stdout gc_stderr \<Rightarrow>
          if gc_returncode \<noteq> 0 then Raise CalledProcessError
          else
            (let cmd = [''blkid'', ''-c'', ''/dev/null'', ''-o'', ''export'']
                        @ (if truthy tag_value then [''-t'', the tag_value] else [])
                        @ (if truthy device then [the device] else [])
             in case run w cmd of
                  NotInstalled \<Rightarrow> Raise FileNotFoundError
                | Completed returncode stdout stderr \<Rightarrow>
                    if returncode \<noteq> 0 then
                      (if \<not> truthy tag_value then die (blkid_failed_message device stderr)
                       else Return [])
                    else Return stdout))"

definition get_device_by_blkid_field :: "world \<Rightarrow> string \<Rightarrow> string \<Rightarrow> string result" where
  "get_device_by_blkid_field w blkid_field field_value =
     (let tag_value = blkid_field @ ''='' @ field_value in
      case run_blkid_export w None (Some tag_value) of
        Raise e \<Rightarrow> Raise e
      | Return dev_output \<Rightarrow>
          (case search_devname dev_output of
             None \<Rightarrow> die (blkid_not_found_message tag_value)
           | Some g \<Rightarrow> Return (strip g)))"

definition get_device_by_partuuid :: "world \<Rightarrow> string \<Rightarrow> string result" where
  "get_device_by_partuuid w partuuid =
     (let by_path = ''/dev/disk/by-partuuid/'' @ partuuid in
      if files w by_path \<noteq> None then Return by_path
      else get_device_by_blkid_field w ''PARTUUID'' partuuid)"

definition get_device_by_uuid :: "world \<Rightarrow> string \<Rightarrow> string result" where
  "get_device_by_uuid w uuid =
     (let by_path = ''/dev/disk/by-uuid/'' @ uuid in
      if files w by_path \<noteq> None then Return by_path
      else get_device_by_blkid_field w ''UUID'' uuid)"

definition cache_lsblk_output :: "world \<Rightarrow> unit result \<times> world" where
  "cache_lsblk_output w =
     (case run w [''lsblk'', ''--all'', ''--path'', ''--pairs'', ''--output'', ''NAME,PTUUID,PARTUUID''] of
        NotInstalled \<Rightarrow> (die ''lsblk command not found.'', w)
      | Completed returncode stdout stderr \<Rightarrow>
          if returncode \<noteq> 0 then (die (lsblk_failed_message stderr), w)
          else (Return (), w\<lparr>CACHED_LSBLK_OUTPUT := Some stdout\<rparr>))"

definition get_device_by_ptuuid :: "string \<Rightarrow> world \<Rightarrow> string result \<times> world" where
  "get_device_by_ptuuid ptuuid0 w =
     (let ptuuid = lower ptuuid0 in
      case (if CACHED_LSBLK_OUTPUT w = None then cache_lsblk_output w else (Return (), w)) of
        (Raise e, w') \<Rightarrow> (Raise e, w')
      | (Return u, w') \<Rightarrow>
          (let output = CACHED_LSBLK_OUTPUT w' in
           if \<not> truthy output then (die ''lsblk output cache is empty.'', w')
           else
             (case first_match (lsblk_at ptuuid) (lower (the output)) of
                None \<Rightarrow> (die (ptuuid_not_found_message ptuuid), w')
              | Some g \<Rightarrow> (Return g, w'))))"

definition uuid_to_mduuid :: "string \<Rightarrow> string" where
  "uuid_to_mduuid uuid0 =
     (let uuid = filter (\<lambda>c. c \<noteq> CHR ''-'') (lower uuid0)
      in take 8 uuid @ '':'' @ take 8 (drop 8 uuid) @ '':'' @ take 8 (drop 16 uuid)
           @ '':'' @ take 8 (drop 24 uuid))"

definition get_device_by_mdadm_uuid :: "world \<Rightarrow> string \<Rightarrow> string result" where
  "get_device_by_mdadm_uuid w uuid =
     (let mduuid = uuid_to_mduuid uuid in
      case run w [''mdadm'', ''--examine'', ''--scan''] of
        NotInstalled \<Rightarrow> die ''mdadm command not found.''
      | Completed returncode stdout stderr \<Rightarrow>
          if returncode \<noteq> 0 then die (mdadm_failed_message mduuid stderr)
          else
            (case first_match (mdadm_at mduuid) (lower stdout) of
               None \<Rightarrow> die (mduuid_not_found_message mduuid)
             | Some g \<Rightarrow> Return g))"

definition get_device_by_luks_name :: "string \<Rightarrow> string" where
  "get_device_by_luks_name name = ''/dev/mapper/'' @ name"

subsection \<open>Canonical device paths and the resolver\<close>

text \<open>The loop of \<open>canonicalize_device\<close> over the names that \<open>os.listdir\<close> returned.\<close>

fun first_alias :: "world \<Rightarrow> string \<Rightarrow> string list \<Rightarrow> string option" where
  "first_alias w given_dev_realpath [] = None"
| "first_alias w given_dev_realpath (dev_id_path # rest) =
     (let full_path = path_join ''/dev/disk/by-id'' dev_id_path in
      if realpath w full_path = given_dev_realpath then Some full_path
      else first_alias w given_dev_realpath rest)"

definition canonicalize_device :: "world \<Rightarrow> string \<Rightarrow> string result" where
  "canonicalize_device w given_dev =
     (let given_dev_realpath = realpath w given_dev in
      case listdir w ''/dev/disk/by-id'' of
        None \<Rightarrow> Raise FileNotFoundError
      | Some names \<Rightarrow>
          (case first_alias w given_dev_realpath names of
             Some full_path \<Rightarrow> Return full_path
           | None \<Rightarrow> Return given_dev))"

definition resolve_device_by_id :: "string \<Rightarrow> world \<Rightarrow> string result \<times> world" where
  "resolve_device_by_id id_val w =
     (case RESOLVABLE w id_val of
        None \<Rightarrow> (die (no_table_entry_message id_val), w)
      | Some entry \<Rightarrow>
          if CHR '':'' \<notin> set entry then (die (invalid_entry_message entry), w)
          else
            (let (type_val, arg) = split_colon entry;
                 (dev, w') =
                   (if type_val = ''partuuid'' then (get_device_by_partuuid w arg, w)
                    else if type_val = ''ptuuid'' then get_device_by_ptuuid arg w
                    else if type_val = ''uuid'' then (get_device_by_uuid w arg, w)
                    else if type_val = ''mdadm'' then (get_device_by_mdadm_uuid w arg, w)
                    else if type_val = ''luks'' then (Return (get_device_by_luks_name arg), w)
                    else if type_val = ''device'' then (Return arg, w)
                    else (die (unknown_type_message entry), w))
             in case dev of
                  Raise e \<Rightarrow> (Raise e, w')
                | Return d \<Rightarrow> (canonicalize_device w' d, w')))"

subsection \<open>An example system\<close>

text \<open>
  A system with one disk, \<open>/dev/sda\<close>, that has an alias under \<open>/dev/disk/by-id\<close>, an
  empty UUID store, a working uuidgen, and probes that run and know none of the UUIDs
  in the resolve table (blkid exits with status 2 when no device has the tag).
\<close>

definition example_run :: "string list \<Rightarrow> proc" where
  "example_run cmd =
     (if cmd = [''uuidgen'', ''-r'']
        then Completed 0 (''123e4567-e89b-42d3-a456-426614174000'' @ [CHR 0x0A]) []
      else if cmd = [''blkid'', ''-g'', ''-c'', ''/dev/null''] then Completed 0 [] []
      else if take 1 cmd = [''blkid''] then Completed 2 [] []
      else if take 1 cmd = [''lsblk'']
        then Completed 0 (''NAME='' @ [CHR 0x22] @ ''/dev/sda'' @ [CHR 0x22] @ '' PTUUID='' @ [CHR 0x22]
               @ ''AB12'' @ [CHR 0x22] @ '' PARTUUID='' @ [CHR 0x22, CHR 0x22, CHR 0x0A]) []
      else if take 1 cmd = [''mdadm''] then Completed 0 [] []
      else NotInstalled)"

definition example_world :: world where
  "example_world =
     \<lparr> files = Map.empty,
       write_error = (\<lambda>path. None),
       run = example_run,
       realpath = (\<lambda>path. if path = ''/dev/disk/by-id/ata-DISK'' then ''/dev/sda'' else path),
       listdir = (\<lambda>dir. if dir = ''/dev/disk/by-id'' then Some [''ata-DISK''] else None),
       RESOLVABLE = [''disk'' \<mapsto> ''device:/dev/sda'', ''usb'' \<mapsto> ''device:/dev/sdb'',
                     ''part_root'' \<mapsto> ''partuuid:0f0f'', ''gpt'' \<mapsto> ''ptuuid:CD34'',
                     ''raid'' \<mapsto> ''mdadm:aaaa-bbbb''],
       CACHED_LSBLK_OUTPUT = None \<rparr>"

text \<open>The same system without the directory \<open>/dev/disk/by-id\<close>: no disk has an alias.\<close>

definition example_world_without_by_id :: world where
  "example_world_without_by_id = example_world\<lparr>listdir := (\<lambda>dir. None)\<rparr>"

section \<open>Notions used to state the properties\<close>

text \<open>
  \<open>preserves P m\<close>: whatever the method \<open>m\<close> does, returning or raising, a configurator
  that satisfies \<open>P\<close> before the call satisfies it after. It is used with a registry
  entry that is there, with a table whose "size=remaining" flag is set, and with the
  partitions of such a table.
\<close>

definition preserves :: "(DiskConfigurator \<Rightarrow> bool) \<Rightarrow> operation \<Rightarrow> bool" where
  "preserves P m = (\<forall>s. P s \<longrightarrow> P (snd (m s)))"

definition kept :: "string \<Rightarrow> string \<Rightarrow> DiskConfigurator \<Rightarrow> bool" where
  "kept i u s = (DISK_ID_TO_UUID s i = Some u)"

definition flagged :: "string \<Rightarrow> DiskConfigurator \<Rightarrow> bool" where
  "flagged t s = (DISK_GPT_HAD_SIZE_REMAINING s t = Some True)"

text \<open>
  \<open>no_new_partition t M s\<close>: the flag of the table \<open>t\<close> is set, and every partition that
  \<open>DISK_ID_PART_TO_GPT_ID\<close> puts on \<open>t\<close> is one that \<open>M\<close> already put there.
\<close>

definition no_new_partition :: "string \<Rightarrow> (string \<rightharpoonup> string) \<Rightarrow> DiskConfigurator \<Rightarrow> bool" where
  "no_new_partition t M s =
     (flagged t s \<and> (\<forall>n. DISK_ID_PART_TO_GPT_ID s n = Some t \<longrightarrow> M n = Some t))"

section \<open>Properties of the disk configurator\<close>

subsection \<open>Each operation as one case distinction\<close>

lemmas stmt_defs = only_if_def skip_def raise_def assign_def print_line_def append_action_def
  die_trace_def create_resolve_entry_def create_resolve_entry_device_def with_uuid_def

lemma create_new_id_eq:
  "create_new_id arguments arg_name s =
     (case arguments arg_name of
        None \<Rightarrow> (Some (SystemExit 2 (required_message arg_name)), s)
      | Some v \<Rightarrow>
          if v = [] then (Some (SystemExit 2 (required_message arg_name)), s)
          else if CHR '';'' \<in> set v then (Some (SystemExit 2 invalid_character_message), s)
          else if DISK_ID_TO_UUID s v \<noteq> None then (Some (SystemExit 2 (already_exists_message v)), s)
          else (None, registered v s))"
  by (simp add: create_new_id_def stmt_defs registered_def Let_def split: option.splits)

lemma register_existing_eq:
  "register_existing new_id device s =
     (if new_id = [] then (Some (SystemExit 2 (required_message ''new_id'')), s)
      else if CHR '';'' \<in> set new_id then (Some (SystemExit 2 invalid_character_message), s)
      else if DISK_ID_TO_UUID s new_id \<noteq> None then (Some (SystemExit 2 (already_exists_message new_id)), s)
      else (None, (registered new_id s)
              \<lparr>DISK_ACTIONS := DISK_ACTIONS s @ [existing_action new_id device],
               STDOUT := STDOUT s @ [resolve_entry_device_line new_id device]\<rparr>))"
  by (simp add: register_existing_def create_new_id_eq stmt_defs registered_def Let_def)

lemma create_partition_eq:
  "create_partition new_id id_val size_val type s =
     (if new_id = [] then (Some (SystemExit 2 (required_message ''new_id'')), s)
      else if CHR '';'' \<in> set new_id then (Some (SystemExit 2 invalid_character_message), s)
      else if DISK_ID_TO_UUID s new_id \<noteq> None then (Some (SystemExit 2 (already_exists_message new_id)), s)
      else if id_val \<noteq> new_id \<and> DISK_ID_TO_UUID s id_val = None then
        (Some (SystemExit 2 (not_found_message ''id'' (Some id_val))), registered new_id s)
      else if type \<notin> set partition_types then
        (Some (SystemExit 2 (invalid_option_message ''type'' (Some type) partition_types)), registered new_id s)
      else if DISK_GPT_HAD_SIZE_REMAINING s id_val = Some True then
        (Some (SystemExit 1 (remaining_used_message id_val)), registered new_id s)
      else (None, (registered new_id s)
              \<lparr>DISK_ACTIONS := DISK_ACTIONS s @ [create_partition_action new_id id_val size_val type],
               DISK_ID_PART_TO_GPT_ID := (DISK_ID_PART_TO_GPT_ID s)(new_id \<mapsto> id_val),
               DISK_GPT_HAD_SIZE_REMAINING :=
                 (if size_val = ''remaining'' then (DISK_GPT_HAD_SIZE_REMAINING s)(id_val \<mapsto> True)
                  else DISK_GPT_HAD_SIZE_REMAINING s),
               STDOUT := STDOUT s @ [resolve_entry_line new_id ''partuuid'' (load_or_generate_uuid (hex new_id))]\<rparr>))"
  by (simp add: create_partition_def create_new_id_eq verify_existing_id_def verify_option_def
        stmt_defs registered_def Let_def)

lemma create_gpt_eq:
  "create_gpt new_id device id_val s =
     (if truthy device \<and> truthy id_val then (Some (SystemExit 2 (only_one_of_message [''device'', ''id''])), s)
      else if new_id = [] then (Some (SystemExit 2 (required_message ''new_id'')), s)
      else if CHR '';'' \<in> set new_id then (Some (SystemExit 2 invalid_character_message), s)
      else if DISK_ID_TO_UUID s new_id \<noteq> None then (Some (SystemExit 2 (already_exists_message new_id)), s)
      else if truthy id_val \<and> the id_val \<noteq> new_id \<and> DISK_ID_TO_UUID s (the id_val) = None then
        (Some (SystemExit 2 (not_found_message ''id'' id_val)), registered new_id s)
      else (None, (registered new_id s)
              \<lparr>DISK_ACTIONS := DISK_ACTIONS s @ [create_gpt_action new_id device id_val],
               STDOUT := STDOUT s @ [resolve_entry_line new_id ''ptuuid'' (load_or_generate_uuid (hex new_id))]\<rparr>))"
  by (cases device; cases id_val)
     (simp_all add: create_gpt_def only_one_of_def set_if_def create_new_id_eq verify_existing_id_def
        stmt_defs registered_def Let_def)

subsection \<open>What a call never undoes\<close>

lemma preserves_block: "(\<And>m. m \<in> set ms \<Longrightarrow> preserves P m) \<Longrightarrow> preserves P (block ms)"
proof (induction ms)
  case Nil
  then show ?case by (simp add: preserves_def)
next
  case (Cons m ms)
  have m: "preserves P m" and ms: "preserves P (block ms)"
    using Cons by simp_all
  show ?case
    unfolding preserves_def
  proof (intro allI impI)
    fix s assume "P s"
    then have "P (snd (m s))" using m by (simp add: preserves_def)
    then show "P (snd (block (m # ms) s))"
      using ms by (cases "m s") (auto simp: preserves_def split: option.splits)
  qed
qed

lemma preserves_only_if: "preserves P m \<Longrightarrow> preserves P (only_if b m)"
  by (simp add: preserves_def only_if_def skip_def)

lemma preserves_die_trace: "preserves P (die_trace c msg)"
  by (simp add: preserves_def die_trace_def raise_def)

lemma preserves_assign: "(\<And>s. P s \<Longrightarrow> P (f s)) \<Longrightarrow> preserves P (assign f)"
  by (simp add: preserves_def assign_def)

lemma preserves_with_uuid: "(\<And>u. preserves P (body u)) \<Longrightarrow> preserves P (with_uuid k body)"
  by (simp add: preserves_def with_uuid_def raise_def split: option.splits)

lemma register_existing_kept: "preserves (kept i u) (register_existing new_id device)"
  by (auto simp: preserves_def register_existing_eq registered_def kept_def)

lemma create_gpt_kept: "preserves (kept i u) (create_gpt new_id device id_val)"
  by (auto simp: preserves_def create_gpt_eq registered_def kept_def)

lemma create_partition_kept: "preserves (kept i u) (create_partition new_id id_val size_val type)"
  by (auto simp: preserves_def create_partition_eq registered_def kept_def)

lemma register_existing_flagged: "preserves (flagged t) (register_existing new_id device)"
  by (auto simp: preserves_def register_existing_eq registered_def flagged_def)

lemma create_gpt_flagged: "preserves (flagged t) (create_gpt new_id device id_val)"
  by (auto simp: preserves_def create_gpt_eq registered_def flagged_def)

lemma create_partition_flagged: "preserves (flagged t) (create_partition new_id id_val size_val type)"
  by (auto simp: preserves_def create_partition_eq registered_def flagged_def)

lemma layout_preserves:
  assumes gpt: "\<And>n d i. preserves P (create_gpt n d i)"
    and part: "\<And>n i z t. preserves P (create_partition n i z t)"
    and upd: "\<And>s f. P s \<Longrightarrow> P (s\<lparr>USED_LUKS := f\<rparr>)"
       "\<And>s f. P s \<Longrightarrow> P (s\<lparr>USED_ENCRYPTION := f\<rparr>)"
       "\<And>s f. P s \<Longrightarrow> P (s\<lparr>DISK_ACTIONS := f\<rparr>)"
       "\<And>s f. P s \<Longrightarrow> P (s\<lparr>DISK_DRACUT_CMDLINE := f\<rparr>)"
       "\<And>s f. P s \<Longrightarrow> P (s\<lparr>DISK_ID_EFI := f\<rparr>)"
       "\<And>s f. P s \<Longrightarrow> P (s\<lparr>DISK_ID_BIOS := f\<rparr>)"
       "\<And>s f. P s \<Longrightarrow> P (s\<lparr>DISK_ID_SWAP := f\<rparr>)"
       "\<And>s f. P s \<Longrightarrow> P (s\<lparr>DISK_ID_ROOT := f\<rparr>)"
       "\<And>s f. P s \<Longrightarrow> P (s\<lparr>DISK_ID_ROOT_TYPE := f\<rparr>)"
       "\<And>s f. P s \<Longrightarrow> P (s\<lparr>DISK_ID_ROOT_MOUNT_OPTS := f\<rparr>)"
  shows "preserves P (create_classic_single_disk_layout device swap type luks root_fs)"
  unfolding create_classic_single_disk_layout_def Let_def
  apply (rule preserves_block)
  apply (simp only: set_simps insert_iff empty_iff)
  apply (elim disjE FalseE)
  apply (simp_all only:)
  apply (auto intro!: gpt part preserves_only_if preserves_block preserves_assign preserves_with_uuid
      preserves_die_trace upd simp: append_action_def)
  done

lemma call_kept: "kept i u s \<Longrightarrow> kept i u (snd (call c s))"
proof (cases c)
  case (Create_classic_single_disk_layout device swap type luks root_fs)
  have "preserves (kept i u) (create_classic_single_disk_layout device swap type luks root_fs)"
    by (rule layout_preserves) (simp_all add: create_gpt_kept create_partition_kept, simp_all add: kept_def)
  then show "kept i u s \<Longrightarrow> ?thesis"
    using Create_classic_single_disk_layout by (simp add: preserves_def)
qed (use register_existing_kept create_gpt_kept create_partition_kept in \<open>auto simp: preserves_def\<close>)

lemma call_flagged: "flagged t s \<Longrightarrow> flagged t (snd (call c s))"
proof (cases c)
  case (Create_classic_single_disk_layout device swap type luks root_fs)
  have "preserves (flagged t) (create_classic_single_disk_layout device swap type luks root_fs)"
    by (rule layout_preserves) (simp_all add: create_gpt_flagged create_partition_flagged, simp_all add: flagged_def)
  then show "flagged t s \<Longrightarrow> ?thesis"
    using Create_classic_single_disk_layout by (simp add: preserves_def)
qed (use register_existing_flagged create_gpt_flagged create_partition_flagged in \<open>auto simp: preserves_def\<close>)

lemma after_calls_kept: "kept i u s \<Longrightarrow> kept i u (after_calls cs s)"
  by (induction cs arbitrary: s) (simp_all add: call_kept)

lemma after_calls_flagged: "flagged t s \<Longrightarrow> flagged t (after_calls cs s)"
  by (induction cs arbitrary: s) (simp_all add: call_flagged)

lemma register_existing_no_new: "preserves (no_new_partition t M) (register_existing new_id device)"
  by (auto simp: preserves_def register_existing_eq registered_def no_new_partition_def flagged_def)

lemma create_gpt_no_new: "preserves (no_new_partition t M) (create_gpt new_id device id_val)"
  by (auto simp: preserves_def create_gpt_eq registered_def no_new_partition_def flagged_def)

lemma create_partition_no_new: "preserves (no_new_partition t M) (create_partition new_id id_val size_val type)"
  by (auto simp: preserves_def create_partition_eq registered_def no_new_partition_def flagged_def)

lemma call_no_new: "no_new_partition t M s \<Longrightarrow> no_new_partition t M (snd (call c s))"
proof (cases c)
  case (Create_classic_single_disk_layout device swap type luks root_fs)
  have "preserves (no_new_partition t M) (create_classic_single_disk_layout device swap type luks root_fs)"
    by (rule layout_preserves)
       (simp_all add: create_gpt_no_new create_partition_no_new, simp_all add: no_new_partition_def flagged_def)
  then show "no_new_partition t M s \<Longrightarrow> ?thesis"
    using Create_classic_single_disk_layout by (simp add: preserves_def)
qed (use register_existing_no_new create_gpt_no_new create_partition_no_new in \<open>auto simp: preserves_def\<close>)

lemma after_calls_no_new: "no_new_partition t M s \<Longrightarrow> no_new_partition t M (after_calls cs s)"
  by (induction cs arbitrary: s) (simp_all add: call_no_new)

subsection \<open>Evaluating messages, actions and UUIDs\<close>

lemmas message_defs = only_one_of_message_def required_message_def invalid_character_message_def
  already_exists_message_def not_found_message_def invalid_option_message_def
  remaining_used_message_def unsupported_root_fs_message_def quoted_def

lemmas action_defs = resolve_entry_line_def resolve_entry_device_line_def existing_action_def
  create_gpt_action_def create_partition_action_def create_luks_action_def format_action_def
  luks_cmdline_def

lemmas uuid_defs = load_or_generate_uuid_def hex_def hex_digit_def

subsection \<open>The single-disk layout with encryption\<close>

text \<open>
  Claim C1. The call \<open>create_classic_single_disk_layout("/dev/sda", "8GiB", "efi", "true", "ext4")\<close>
  on a fresh configurator does not return: the table and the three partitions are created
  and the \<open>create_luks\<close> action is appended, then \<open>self.DISK_ID_TO_UUID['part_luks_root']\<close>
  raises \<open>KeyError\<close>, because nothing registered \<open>part_luks_root\<close>. No format action is
  appended, \<open>DISK_DRACUT_CMDLINE\<close> stays empty and \<open>DISK_ID_ROOT\<close> stays \<open>None\<close>.
\<close>

theorem luks_layout_raises_KeyError:
  "fst (create_classic_single_disk_layout ''/dev/sda'' ''8GiB'' ''efi'' ''true'' ''ext4'' (init base_dir))
     = Some (KeyError ''part_luks_root'')
   \<and> DISK_ACTIONS (snd (create_classic_single_disk_layout ''/dev/sda'' ''8GiB'' ''efi'' ''true'' ''ext4'' (init base_dir)))
     = [''action=create_gpt new_id=gpt device=/dev/sda;'',
        ''action=create_partition new_id=part_efi id=gpt size=1GiB type=efi;'',
        ''action=create_partition new_id=part_swap id=gpt size=8GiB type=swap;'',
        ''action=create_partition new_id=part_root id=gpt size=remaining type=linux;'',
        ''action=create_luks new_id=part_luks_root name=root id=part_root;'']
   \<and> DISK_DRACUT_CMDLINE (snd (create_classic_single_disk_layout ''/dev/sda'' ''8GiB'' ''efi'' ''true'' ''ext4'' (init base_dir))) = []
   \<and> DISK_ID_ROOT (snd (create_classic_single_disk_layout ''/dev/sda'' ''8GiB'' ''efi'' ''true'' ''ext4'' (init base_dir))) = None"
  by (simp add: create_classic_single_disk_layout_def create_gpt_eq create_partition_eq registered_def
        init_def stmt_defs partition_types_def action_defs Let_def)

subsection \<open>Distinct identifiers, equal UUIDs\<close>

text \<open>
  Claim C3. With the placeholder \<open>load_or_generate_uuid\<close> of config.py the UUID is made of
  the first four hexadecimal digits of the encoded identifier, that is of its first two
  bytes: \<open>part_efi\<close> and \<open>part_swap\<close>, both created by the single-disk layout, are both
  accepted by \<open>create_new_id\<close> and both get \<open>STUB-UUID-7061\<close>.
\<close>

theorem stub_uuid_collision:
  "fst (create_new_id [''new_id'' \<mapsto> ''part_efi''] ''new_id'' (init base_dir)) = None
   \<and> fst (create_new_id [''new_id'' \<mapsto> ''part_swap''] ''new_id''
          (snd (create_new_id [''new_id'' \<mapsto> ''part_efi''] ''new_id'' (init base_dir)))) = None
   \<and> DISK_ID_TO_UUID (snd (create_new_id [''new_id'' \<mapsto> ''part_swap''] ''new_id''
          (snd (create_new_id [''new_id'' \<mapsto> ''part_efi''] ''new_id'' (init base_dir))))) ''part_efi''
       = Some ''STUB-UUID-7061''
   \<and> DISK_ID_TO_UUID (snd (create_new_id [''new_id'' \<mapsto> ''part_swap''] ''new_id''
          (snd (create_new_id [''new_id'' \<mapsto> ''part_efi''] ''new_id'' (init base_dir))))) ''part_swap''
       = Some ''STUB-UUID-7061''"
  by (simp add: create_new_id_eq registered_def init_def uuid_defs)

subsection \<open>What a rejected call leaves behind\<close>

text \<open>
  Claim C2, as stated, fails: \<open>create_partition\<close> runs \<open>create_new_id\<close> before it checks
  the table identifier, so a call rejected for an unknown table leaves the new identifier
  in \<open>DISK_ID_TO_UUID\<close>.
\<close>

theorem rejected_partition_leaves_new_id_counterexample:
  "fst (create_partition ''part_efi'' ''gpt'' ''1GiB'' ''efi'' (init ''/tmp''))
     = Some (SystemExit 2 ''Identifier id='gpt' not found'')
   \<and> DISK_ID_TO_UUID (init ''/tmp'') ''part_efi'' = None
   \<and> DISK_ID_TO_UUID (snd (create_partition ''part_efi'' ''gpt'' ''1GiB'' ''efi'' (init ''/tmp''))) ''part_efi''
     = Some ''STUB-UUID-7061''"
  by (simp add: create_partition_eq registered_def init_def message_defs uuid_defs)

text \<open>
  Claim C2, amended. A call of \<open>register_existing\<close>, \<open>create_gpt\<close> or \<open>create_partition\<close>
  that raises leaves the configurator as it was when \<open>only_one_of\<close> or \<open>create_new_id\<close>
  rejected it. When a later check rejected it (unknown table identifier, invalid type,
  size=remaining already used), the only change is that the new identifier is
  registered in \<open>DISK_ID_TO_UUID\<close>: \<open>DISK_ID_PART_TO_GPT_ID\<close>,
  \<open>DISK_GPT_HAD_SIZE_REMAINING\<close>, \<open>DISK_ACTIONS\<close>, \<open>DISK_ID_TO_RESOLVABLE\<close> and the
  resolve entries printed so far are as before.
\<close>

theorem rejected_call_state:
  "(register_existing new_id device s = (Some e, s') \<longrightarrow> s' = s)
   \<and> (create_gpt new_id dev id_opt s = (Some e, s') \<longrightarrow>
        s' = (if \<not> (truthy dev \<and> truthy id_opt) \<and> valid_new_id s new_id then registered new_id s else s))
   \<and> (create_partition new_id id_val size_val type s = (Some e, s') \<longrightarrow>
        s' = (if valid_new_id s new_id then registered new_id s else s))"
  by (auto simp: register_existing_eq create_gpt_eq create_partition_eq valid_new_id_def
        split: if_splits)

theorem rejected_call_state_witness:
  "register_existing ''a;b'' ''/dev/sda'' (init ''/tmp'') = (Some (SystemExit 2 invalid_character_message), init ''/tmp'')
   \<and> create_gpt ''gpt'' None (Some ''disk'') (init ''/tmp'')
       = (Some (SystemExit 2 (not_found_message ''id'' (Some ''disk''))), registered ''gpt'' (init ''/tmp''))
   \<and> create_partition ''part_efi'' ''gpt'' ''1GiB'' ''efi'' (init ''/tmp'')
       = (Some (SystemExit 2 (not_found_message ''id'' (Some ''gpt''))), registered ''part_efi'' (init ''/tmp''))"
proof -
  have r: "register_existing ''a;b'' ''/dev/sda'' (init ''/tmp'') = (Some (SystemExit 2 invalid_character_message), init ''/tmp'')"
    by (simp add: register_existing_eq)
  have v1: "valid_new_id (init ''/tmp'') ''gpt''" and v2: "valid_new_id (init ''/tmp'') ''part_efi''"
    by (simp_all add: valid_new_id_def init_def)
  have g: "create_gpt ''gpt'' None (Some ''disk'') (init ''/tmp'')
       = (Some (SystemExit 2 (not_found_message ''id'' (Some ''disk''))),
          snd (create_gpt ''gpt'' None (Some ''disk'') (init ''/tmp'')))"
    by (simp add: create_gpt_eq init_def registered_def)
  have p: "create_partition ''part_efi'' ''gpt'' ''1GiB'' ''efi'' (init ''/tmp'')
       = (Some (SystemExit 2 (not_found_message ''id'' (Some ''gpt''))),
          snd (create_partition ''part_efi'' ''gpt'' ''1GiB'' ''efi'' (init ''/tmp'')))"
    by (simp add: create_partition_eq init_def registered_def)
  from rejected_call_state [of "''gpt''" "''/dev/sda''" "init ''/tmp''"
        "SystemExit 2 (not_found_message ''id'' (Some ''disk''))"
        "snd (create_gpt ''gpt'' None (Some ''disk'') (init ''/tmp''))" None "Some ''disk''"
        "''gpt''" "''1GiB''" "''efi''"] g v1
  have g': "snd (create_gpt ''gpt'' None (Some ''disk'') (init ''/tmp'')) = registered ''gpt'' (init ''/tmp'')"
    by simp
  from rejected_call_state [of "''part_efi''" "''/dev/sda''" "init ''/tmp''"
        "SystemExit 2 (not_found_message ''id'' (Some ''gpt''))"
        "snd (create_partition ''part_efi'' ''gpt'' ''1GiB'' ''efi'' (init ''/tmp''))" None None
        "''gpt''" "''1GiB''" "''efi''"] p v2
  have p': "snd (create_partition ''part_efi'' ''gpt'' ''1GiB'' ''efi'' (init ''/tmp'')) = registered ''part_efi'' (init ''/tmp'')"
    by simp
  show ?thesis using r g g' p p' by simp
qed

subsection \<open>The two targets of \<open>create_gpt\<close>\<close>

text \<open>
  Claim C4, as stated, fails: \<open>only_one_of\<close> rejects more than one of the keys and nothing
  asks for at least one, so \<open>create_gpt\<close> with neither a device nor a table identifier
  returns and appends an action without a target.
\<close>

theorem create_gpt_without_target_counterexample:
  "fst (create_gpt ''gpt'' None None (init ''/tmp'')) = None
   \<and> DISK_ACTIONS (snd (create_gpt ''gpt'' None None (init ''/tmp''))) = [''action=create_gpt new_id=gpt;'']"
  by (simp add: create_gpt_eq registered_def init_def action_defs)

text \<open>
  Claim C4, amended. \<open>create_gpt\<close> with both a device and a table identifier raises
  \<open>SystemExit 2\<close> with the message of \<open>only_one_of\<close> and changes nothing. With at most one
  of them it returns exactly when the new identifier is accepted by \<open>create_new_id\<close>
  and the table identifier, if given, is registered (or is the new identifier itself,
  which \<open>create_new_id\<close> has registered by then).
\<close>

theorem create_gpt_argument_check:
  "(truthy device \<and> truthy id_val \<longrightarrow>
      create_gpt new_id device id_val s = (Some (SystemExit 2 (only_one_of_message [''device'', ''id''])), s))
   \<and> (\<not> (truthy device \<and> truthy id_val) \<longrightarrow>
      (fst (create_gpt new_id device id_val s) = None)
        = (valid_new_id s new_id
           \<and> (truthy id_val \<longrightarrow> the id_val = new_id \<or> DISK_ID_TO_UUID s (the id_val) \<noteq> None)))"
  by (auto simp: create_gpt_eq valid_new_id_def)

theorem create_gpt_argument_check_witness:
  "create_gpt ''gpt'' (Some ''/dev/sda'') (Some ''disk'') (init ''/tmp'')
     = (Some (SystemExit 2 ''Only one of the arguments (device, id) can be given''), init ''/tmp'')
   \<and> fst (create_gpt ''gpt'' (Some ''/dev/sda'') None (init ''/tmp'')) = None
   \<and> fst (create_gpt ''gpt'' None None (init ''/tmp'')) = None
   \<and> fst (create_gpt ''gpt'' None (Some ''disk'') (init ''/tmp'')) \<noteq> None"
  using create_gpt_argument_check [of "Some ''/dev/sda''" "Some ''disk''" "''gpt''" "init ''/tmp''"]
    create_gpt_argument_check [of "Some ''/dev/sda''" None "''gpt''" "init ''/tmp''"]
    create_gpt_argument_check [of None None "''gpt''" "init ''/tmp''"]
    create_gpt_argument_check [of None "Some ''disk''" "''gpt''" "init ''/tmp''"]
  by (simp add: valid_new_id_def init_def only_one_of_message_def)

subsection \<open>No partition after size=remaining\<close>

lemma remaining_sets_flag:
  "create_partition p t ''remaining'' ty s0 = (None, s1) \<Longrightarrow> flagged t s1 \<and> (\<exists>u. kept t u s1)"
  by (auto simp: create_partition_eq registered_def flagged_def kept_def split: if_splits)

text \<open>
  Claim C5, as stated, fails: the type is checked before the flag, so on a table that
  already has its size=remaining partition a call with a type outside the list is
  rejected with the message of \<open>verify_option\<close> and exit code 2, not with the message
  about size=remaining.
\<close>

theorem full_table_invalid_type_counterexample:
  "fst (create_partition ''part_root'' ''gpt'' ''remaining'' ''linux''
          (after_calls [Create_gpt ''gpt'' (Some ''/dev/sda'') None] (init ''/tmp''))) = None
   \<and> fst (create_partition ''part_data'' ''gpt'' ''1GiB'' ''ext4''
          (after_calls [Create_gpt ''gpt'' (Some ''/dev/sda'') None,
                        Create_partition ''part_root'' ''gpt'' ''remaining'' ''linux''] (init ''/tmp'')))
     = Some (SystemExit 2 ''Invalid option type='ext4', must be one of (bios, efi, swap, raid, luks, linux)'')"
  by (simp add: create_gpt_eq create_partition_eq registered_def init_def partition_types_def message_defs)

text \<open>
  Claim C5, amended. Once \<open>create_partition\<close> with size "remaining" has returned for the
  table \<open>t\<close>, then after any further calls of the builder every \<open>create_partition\<close> on
  \<open>t\<close> raises, whatever its size and type, appends nothing to \<open>DISK_ACTIONS\<close> and leaves
  the flag of \<open>t\<close> set. The exception is \<open>SystemExit 1\<close> with the size=remaining message
  when the new identifier is accepted by \<open>create_new_id\<close> and the type is one of the six
  partition types; otherwise the earlier check raises. And those further calls, the
  single-disk layout among them, put no new partition on \<open>t\<close>: every partition that
  \<open>DISK_ID_PART_TO_GPT_ID\<close> has on \<open>t\<close> afterwards was on it when the size=remaining
  partition was created, which is therefore the last partition of its table.
\<close>

theorem table_full_after_remaining:
  "create_partition p t ''remaining'' ty s0 = (None, s1) \<longrightarrow>
     fst (create_partition new_id t size_val type (after_calls cs s1)) \<noteq> None
     \<and> DISK_ACTIONS (snd (create_partition new_id t size_val type (after_calls cs s1)))
         = DISK_ACTIONS (after_calls cs s1)
     \<and> DISK_GPT_HAD_SIZE_REMAINING (snd (create_partition new_id t size_val type (after_calls cs s1))) t
         = Some True
     \<and> (valid_new_id (after_calls cs s1) new_id \<and> type \<in> set partition_types \<longrightarrow>
          create_partition new_id t size_val type (after_calls cs s1)
            = (Some (SystemExit 1 (remaining_used_message t)), registered new_id (after_calls cs s1)))
     \<and> (\<forall>n. DISK_ID_PART_TO_GPT_ID (after_calls cs s1) n = Some t \<longrightarrow>
              DISK_ID_PART_TO_GPT_ID s1 n = Some t)"
proof
  assume a: "create_partition p t ''remaining'' ty s0 = (None, s1)"
  define s where "s = after_calls cs s1"
  from remaining_sets_flag [OF a] obtain u where fk: "flagged t s1" "kept t u s1" by blast
  then have f: "DISK_GPT_HAD_SIZE_REMAINING s t = Some True" and k: "DISK_ID_TO_UUID s t = Some u"
    using after_calls_flagged [of t s1 cs] after_calls_kept [of t u s1 cs]
    by (simp_all add: s_def flagged_def kept_def)
  have "no_new_partition t (DISK_ID_PART_TO_GPT_ID s1) s1"
    using fk by (simp add: no_new_partition_def)
  then have "no_new_partition t (DISK_ID_PART_TO_GPT_ID s1) s"
    unfolding s_def by (rule after_calls_no_new)
  then have n: "\<forall>n. DISK_ID_PART_TO_GPT_ID s n = Some t \<longrightarrow> DISK_ID_PART_TO_GPT_ID s1 n = Some t"
    by (simp add: no_new_partition_def)
  have "fst (create_partition new_id t size_val type s) \<noteq> None
     \<and> DISK_ACTIONS (snd (create_partition new_id t size_val type s)) = DISK_ACTIONS s
     \<and> DISK_GPT_HAD_SIZE_REMAINING (snd (create_partition new_id t size_val type s)) t = Some True
     \<and> (valid_new_id s new_id \<and> type \<in> set partition_types \<longrightarrow>
          create_partition new_id t size_val type s
            = (Some (SystemExit 1 (remaining_used_message t)), registered new_id s))"
    using f k by (simp add: create_partition_eq registered_def valid_new_id_def)
  with n show "fst (create_partition new_id t size_val type (after_calls cs s1)) \<noteq> None
     \<and> DISK_ACTIONS (snd (create_partition new_id t size_val type (after_calls cs s1)))
         = DISK_ACTIONS (after_calls cs s1)
     \<and> DISK_GPT_HAD_SIZE_REMAINING (snd (create_partition new_id t size_val type (after_calls cs s1))) t
         = Some True
     \<and> (valid_new_id (after_calls cs s1) new_id \<and> type \<in> set partition_types \<longrightarrow>
          create_partition new_id t size_val type (after_calls cs s1)
            = (Some (SystemExit 1 (remaining_used_message t)), registered new_id (after_calls cs s1)))
     \<and> (\<forall>n. DISK_ID_PART_TO_GPT_ID (after_calls cs s1) n = Some t \<longrightarrow>
              DISK_ID_PART_TO_GPT_ID s1 n = Some t)"
    by (simp add: s_def)
qed

theorem table_full_after_remaining_witness:
  "fst (create_partition ''part_root'' ''gpt'' ''remaining'' ''linux''
          (after_calls [Create_gpt ''gpt'' (Some ''/dev/sda'') None] (init ''/tmp''))) = None
   \<and> fst (create_partition ''part_data'' ''gpt'' ''1GiB'' ''linux''
          (after_calls [Create_gpt ''gpt'' (Some ''/dev/sda'') None,
                        Create_partition ''part_root'' ''gpt'' ''remaining'' ''linux'',
                        Register_existing ''usb'' ''/dev/sdb''] (init ''/tmp'')))
     = Some (SystemExit 1 ''Cannot add another partition to table (gpt) after size=remaining was used'')"
proof -
  define s0 where "s0 = after_calls [Create_gpt ''gpt'' (Some ''/dev/sda'') None] (init ''/tmp'')"
  define s1 where "s1 = snd (create_partition ''part_root'' ''gpt'' ''remaining'' ''linux'' s0)"
  have ok: "fst (create_partition ''part_root'' ''gpt'' ''remaining'' ''linux'' s0) = None"
    by (simp add: s0_def create_gpt_eq create_partition_eq registered_def init_def partition_types_def)
  then have h: "create_partition ''part_root'' ''gpt'' ''remaining'' ''linux'' s0 = (None, s1)"
    by (simp add: s1_def prod_eq_iff)
  have v: "valid_new_id (after_calls [Register_existing ''usb'' ''/dev/sdb''] s1) ''part_data''"
    by (simp add: s1_def s0_def valid_new_id_def create_gpt_eq create_partition_eq register_existing_eq
          registered_def init_def partition_types_def)
  have t: "''linux'' \<in> set partition_types"
    by (simp add: partition_types_def)
  have "fst (create_partition ''part_data'' ''gpt'' ''1GiB'' ''linux''
          (after_calls [Register_existing ''usb'' ''/dev/sdb''] s1))
     = Some (SystemExit 1 (remaining_used_message ''gpt''))"
    using table_full_after_remaining [of "''part_root''" "''gpt''" "''linux''" s0 s1 "''part_data''"
        "''1GiB''" "''linux''" "[Register_existing ''usb'' ''/dev/sdb'']"] h v t
    by simp
  then show ?thesis
    using ok by (simp add: s1_def s0_def remaining_used_message_def)
qed

subsection \<open>Duplicate and malformed identifiers\<close>

text \<open>
  Claim C7. Once \<open>create_new_id\<close> has returned for an identifier, then after any further
  calls of the builder its registry entry is the one of the first creation and creating
  it again raises \<open>SystemExit 2\<close> with "Identifier '...' already exists", changing
  nothing. An identifier that is missing or empty is rejected with "Argument '...' is
  required for ID creation.", one that contains \<open>;\<close> with "Identifier contains invalid
  character ';'", both with exit code 2 and without registering anything.
\<close>

theorem create_new_id_rejects:
  "(arguments arg_name = Some id_val \<and> create_new_id arguments arg_name s = (None, s1)
      \<and> arguments' arg_name' = Some id_val \<longrightarrow>
        create_new_id arguments' arg_name' (after_calls cs s1)
          = (Some (SystemExit 2 (already_exists_message id_val)), after_calls cs s1)
        \<and> DISK_ID_TO_UUID (after_calls cs s1) id_val = DISK_ID_TO_UUID s1 id_val)
   \<and> (arguments arg_name = None \<or> arguments arg_name = Some [] \<longrightarrow>
        create_new_id arguments arg_name s = (Some (SystemExit 2 (required_message arg_name)), s))
   \<and> (arguments arg_name = Some id_val \<and> id_val \<noteq> [] \<and> CHR '';'' \<in> set id_val \<longrightarrow>
        create_new_id arguments arg_name s = (Some (SystemExit 2 invalid_character_message), s))"
proof (intro conjI impI)
  assume a: "arguments arg_name = Some id_val \<and> create_new_id arguments arg_name s = (None, s1)
      \<and> arguments' arg_name' = Some id_val"
  then have ok: "id_val \<noteq> []" "CHR '';'' \<notin> set id_val"
    and s1: "s1 = registered id_val s"
    by (auto simp: create_new_id_eq split: if_splits)
  then have "kept id_val (load_or_generate_uuid (hex id_val)) s1"
    by (simp add: kept_def registered_def)
  then have k: "kept id_val (load_or_generate_uuid (hex id_val)) (after_calls cs s1)"
    by (rule after_calls_kept)
  then show "create_new_id arguments' arg_name' (after_calls cs s1)
          = (Some (SystemExit 2 (already_exists_message id_val)), after_calls cs s1)"
    using a ok by (simp add: create_new_id_eq kept_def)
  show "DISK_ID_TO_UUID (after_calls cs s1) id_val = DISK_ID_TO_UUID s1 id_val"
    using k s1 by (simp add: kept_def registered_def)
next
  assume "arguments arg_name = None \<or> arguments arg_name = Some []"
  then show "create_new_id arguments arg_name s = (Some (SystemExit 2 (required_message arg_name)), s)"
    by (auto simp: create_new_id_eq)
next
  assume "arguments arg_name = Some id_val \<and> id_val \<noteq> [] \<and> CHR '';'' \<in> set id_val"
  then show "create_new_id arguments arg_name s = (Some (SystemExit 2 invalid_character_message), s)"
    by (simp add: create_new_id_eq)
qed

theorem create_new_id_rejects_witness:
  "fst (create_new_id [''new_id'' \<mapsto> ''gpt''] ''new_id'' (init ''/tmp'')) = None
   \<and> fst (create_new_id [''new_id'' \<mapsto> ''gpt''] ''new_id''
        (after_calls [Register_existing ''usb'' ''/dev/sdb'']
           (snd (create_new_id [''new_id'' \<mapsto> ''gpt''] ''new_id'' (init ''/tmp'')))))
      = Some (SystemExit 2 ''Identifier 'gpt' already exists'')
   \<and> create_new_id [''new_id'' \<mapsto> []] ''new_id'' (init ''/tmp'')
      = (Some (SystemExit 2 ''Argument 'new_id' is required for ID creation.''), init ''/tmp'')
   \<and> create_new_id [''new_id'' \<mapsto> ''a;b''] ''new_id'' (init ''/tmp'')
      = (Some (SystemExit 2 (''Identifier contains invalid character '' @ quoted '';'')), init ''/tmp'')"
proof -
  define s1 where "s1 = snd (create_new_id [''new_id'' \<mapsto> ''gpt''] ''new_id'' (init ''/tmp''))"
  have ok: "fst (create_new_id [''new_id'' \<mapsto> ''gpt''] ''new_id'' (init ''/tmp'')) = None"
    by (simp add: create_new_id_eq init_def)
  then have h: "create_new_id [''new_id'' \<mapsto> ''gpt''] ''new_id'' (init ''/tmp'') = (None, s1)"
    by (simp add: s1_def prod_eq_iff)
  have 1: "fst (create_new_id [''new_id'' \<mapsto> ''gpt''] ''new_id''
              (after_calls [Register_existing ''usb'' ''/dev/sdb''] s1))
            = Some (SystemExit 2 (already_exists_message ''gpt''))"
    using create_new_id_rejects [of "[''new_id'' \<mapsto> ''gpt'']" "''new_id''" "''gpt''" "init ''/tmp''" s1
        "[''new_id'' \<mapsto> ''gpt'']" "''new_id''" "[Register_existing ''usb'' ''/dev/sdb'']"] h
    by simp
  have 2: "create_new_id [''new_id'' \<mapsto> []] ''new_id'' (init ''/tmp'')
      = (Some (SystemExit 2 (required_message ''new_id'')), init ''/tmp'')"
    using create_new_id_rejects [of "[''new_id'' \<mapsto> []]" "''new_id''" "[]" "init ''/tmp''"]
    by simp
  have 3: "create_new_id [''new_id'' \<mapsto> ''a;b''] ''new_id'' (init ''/tmp'')
      = (Some (SystemExit 2 invalid_character_message), init ''/tmp'')"
    using create_new_id_rejects [of "[''new_id'' \<mapsto> ''a;b'']" "''new_id''" "''a;b''" "init ''/tmp''"]
    by simp
  show ?thesis
    using ok 1 2 3
    by (simp add: s1_def already_exists_message_def required_message_def invalid_character_message_def quoted_def)
qed

subsection \<open>An unsupported root filesystem\<close>

lemma partition_type_facts:
  "type \<in> set partition_types \<Longrightarrow> CHR '';'' \<notin> set type \<and> type \<noteq> ''root''"
  by (auto simp: partition_types_def)

text \<open>
  Claim C10, as stated, fails: a call with an unsupported root filesystem ends earlier,
  with another exception, when one of the steps before the filesystem check raises.
  With a partition type outside the list the second step raises and the plan holds the
  table action only.
\<close>

theorem unsupported_root_fs_invalid_type_counterexample:
  "fst (create_classic_single_disk_layout ''/dev/sda'' ''8GiB'' ''uefi'' ''false'' ''xfs'' (init ''/tmp''))
     = Some (SystemExit 2 ''Invalid option type='uefi', must be one of (bios, efi, swap, raid, luks, linux)'')
   \<and> DISK_ACTIONS (snd (create_classic_single_disk_layout ''/dev/sda'' ''8GiB'' ''uefi'' ''false'' ''xfs'' (init ''/tmp'')))
     = [''action=create_gpt new_id=gpt device=/dev/sda;'']
   \<and> DISK_ID_ROOT (snd (create_classic_single_disk_layout ''/dev/sda'' ''8GiB'' ''uefi'' ''false'' ''xfs'' (init ''/tmp''))) = None"
  by (simp add: create_classic_single_disk_layout_def create_gpt_eq create_partition_eq registered_def
        init_def stmt_defs partition_types_def action_defs message_defs Let_def)

text \<open>
  Claim C10, amended. A call with a root filesystem other than "ext4" and "btrfs", without
  encryption, with one of the six partition types (not "swap" when a swap partition is
  asked for), a swap size other than "remaining", on a configurator where \<open>gpt\<close>,
  \<open>part_<type>\<close>, \<open>part_swap\<close> and \<open>part_root\<close> are not registered and the flag of \<open>gpt\<close>
  is not set, raises \<open>SystemExit 1\<close> with "Unsupported root filesystem type" after it has
  appended the table, partition and format actions and has set \<open>DISK_ID_ROOT\<close> and
  \<open>DISK_ID_ROOT_TYPE\<close>; \<open>DISK_ID_ROOT_MOUNT_OPTS\<close> is not set.
\<close>

theorem unsupported_root_fs_after_actions:
  "root_fs \<noteq> ''btrfs'' \<and> root_fs \<noteq> ''ext4'' \<and> luks \<noteq> ''true''
   \<and> type \<in> set partition_types \<and> swap \<noteq> ''remaining'' \<and> (swap \<noteq> ''false'' \<longrightarrow> type \<noteq> ''swap'')
   \<and> DISK_ID_TO_UUID s ''gpt'' = None \<and> DISK_ID_TO_UUID s (''part_'' @ type) = None
   \<and> DISK_ID_TO_UUID s ''part_swap'' = None \<and> DISK_ID_TO_UUID s ''part_root'' = None
   \<and> DISK_GPT_HAD_SIZE_REMAINING s ''gpt'' \<noteq> Some True
   \<longrightarrow>
   fst (create_classic_single_disk_layout device swap type luks root_fs s)
     = Some (SystemExit 1 unsupported_root_fs_message)
   \<and> DISK_ACTIONS (snd (create_classic_single_disk_layout device swap type luks root_fs s))
     = DISK_ACTIONS s
       @ [create_gpt_action ''gpt'' (Some device) None,
          create_partition_action (''part_'' @ type) ''gpt'' ''1GiB'' type]
       @ (if swap \<noteq> ''false'' then [create_partition_action ''part_swap'' ''gpt'' swap ''swap''] else [])
       @ [create_partition_action ''part_root'' ''gpt'' ''remaining'' ''linux'',
          format_action (''part_'' @ type) type type]
       @ (if swap \<noteq> ''false'' then [format_action ''part_swap'' ''swap'' ''swap''] else [])
       @ [format_action ''part_root'' root_fs ''root'']
   \<and> DISK_ID_ROOT (snd (create_classic_single_disk_layout device swap type luks root_fs s)) = Some ''part_root''
   \<and> DISK_ID_ROOT_TYPE (snd (create_classic_single_disk_layout device swap type luks root_fs s)) = Some root_fs
   \<and> DISK_ID_ROOT_MOUNT_OPTS (snd (create_classic_single_disk_layout device swap type luks root_fs s))
       = DISK_ID_ROOT_MOUNT_OPTS s"
proof
  assume a: "root_fs \<noteq> ''btrfs'' \<and> root_fs \<noteq> ''ext4'' \<and> luks \<noteq> ''true''
   \<and> type \<in> set partition_types \<and> swap \<noteq> ''remaining'' \<and> (swap \<noteq> ''false'' \<longrightarrow> type \<noteq> ''swap'')
   \<and> DISK_ID_TO_UUID s ''gpt'' = None \<and> DISK_ID_TO_UUID s (''part_'' @ type) = None
   \<and> DISK_ID_TO_UUID s ''part_swap'' = None \<and> DISK_ID_TO_UUID s ''part_root'' = None
   \<and> DISK_GPT_HAD_SIZE_REMAINING s ''gpt'' \<noteq> Some True"
  then have t: "CHR '';'' \<notin> set type" "type \<noteq> ''root''" "type \<in> set partition_types"
    using partition_type_facts by blast+
  have sw: "''swap'' \<in> set partition_types" "''linux'' \<in> set partition_types"
    by (simp_all add: partition_types_def)
  show "fst (create_classic_single_disk_layout device swap type luks root_fs s)
     = Some (SystemExit 1 unsupported_root_fs_message)
   \<and> DISK_ACTIONS (snd (create_classic_single_disk_layout device swap type luks root_fs s))
     = DISK_ACTIONS s
       @ [create_gpt_action ''gpt'' (Some device) None,
          create_partition_action (''part_'' @ type) ''gpt'' ''1GiB'' type]
       @ (if swap \<noteq> ''false'' then [create_partition_action ''part_swap'' ''gpt'' swap ''swap''] else [])
       @ [create_partition_action ''part_root'' ''gpt'' ''remaining'' ''linux'',
          format_action (''part_'' @ type) type type]
       @ (if swap \<noteq> ''false'' then [format_action ''part_swap'' ''swap'' ''swap''] else [])
       @ [format_action ''part_root'' root_fs ''root'']
   \<and> DISK_ID_ROOT (snd (create_classic_single_disk_layout device swap type luks root_fs s)) = Some ''part_root''
   \<and> DISK_ID_ROOT_TYPE (snd (create_classic_single_disk_layout device swap type luks root_fs s)) = Some root_fs
   \<and> DISK_ID_ROOT_MOUNT_OPTS (snd (create_classic_single_disk_layout device swap type luks root_fs s))
       = DISK_ID_ROOT_MOUNT_OPTS s"
  proof (cases "swap = ''false''")
    case True
    then show ?thesis
      using a t sw
      by (simp add: create_classic_single_disk_layout_def create_gpt_eq create_partition_eq
            registered_def stmt_defs Let_def)
  next
    case False
    then have "''swap'' \<noteq> type" using a by auto
    with False show ?thesis
      using a t sw
      by (simp add: create_classic_single_disk_layout_def create_gpt_eq create_partition_eq
            registered_def stmt_defs Let_def)
  qed
qed

theorem unsupported_root_fs_after_actions_witness:
  "fst (create_classic_single_disk_layout ''/dev/sda'' ''8GiB'' ''efi'' ''false'' ''xfs'' (init ''/tmp''))
     = Some (SystemExit 1 ''Unsupported root filesystem type'')
   \<and> DISK_ACTIONS (snd (create_classic_single_disk_layout ''/dev/sda'' ''8GiB'' ''efi'' ''false'' ''xfs'' (init ''/tmp'')))
     = [''action=create_gpt new_id=gpt device=/dev/sda;'',
        ''action=create_partition new_id=part_efi id=gpt size=1GiB type=efi;'',
        ''action=create_partition new_id=part_swap id=gpt size=8GiB type=swap;'',
        ''action=create_partition new_id=part_root id=gpt size=remaining type=linux;'',
        ''action=format id=part_efi type=efi label=efi;'',
        ''action=format id=part_swap type=swap label=swap;'',
        ''action=format id=part_root type=xfs label=root;'']
   \<and> DISK_ID_ROOT (snd (create_classic_single_disk_layout ''/dev/sda'' ''8GiB'' ''efi'' ''false'' ''xfs'' (init ''/tmp'')))
     = Some ''part_root''"
  using unsupported_root_fs_after_actions [of "''xfs''" "''false''" "''efi''" "''8GiB''" "init ''/tmp''" "''/dev/sda''"]
  by (simp add: init_def partition_types_def action_defs unsupported_root_fs_message_def)

section \<open>Properties of the UUID store and the device resolver\<close>

subsection \<open>Stripping and reading text\<close>

lemma rstrip_prefix: "\<exists>z. v = rstrip v @ z"
proof -
  have "rev (rev v) = rev (takeWhile isspace (rev v) @ dropWhile isspace (rev v))"
    by (simp only: takeWhile_dropWhile_id)
  then have "v = rev (dropWhile isspace (rev v)) @ rev (takeWhile isspace (rev v))"
    by (simp only: rev_rev_ident rev_append)
  then have "v = rstrip v @ rev (takeWhile isspace (rev v))"
    by (simp only: rstrip_def)
  then show ?thesis ..
qed

lemma lstrip_head: "lstrip v \<noteq> [] \<Longrightarrow> \<not> isspace (hd (lstrip v))"
  unfolding lstrip_def by (rule hd_dropWhile)

lemma lstrip_self: "v = [] \<or> \<not> isspace (hd v) \<Longrightarrow> lstrip v = v"
  by (cases v) (auto simp: lstrip_def)

lemma rstrip_idem: "rstrip (rstrip v) = rstrip v"
  by (simp add: rstrip_def)

lemma lstrip_rstrip_lstrip: "lstrip (rstrip (lstrip v)) = rstrip (lstrip v)"
proof (cases "rstrip (lstrip v) = []")
  case True
  then show ?thesis by (simp add: lstrip_def)
next
  case False
  obtain z where z: "lstrip v = rstrip (lstrip v) @ z" using rstrip_prefix by blast
  with False have "hd (rstrip (lstrip v)) = hd (lstrip v)"
    by (metis hd_append2)
  moreover have "lstrip v \<noteq> []" using z False by auto
  ultimately have "\<not> isspace (hd (rstrip (lstrip v)))" using lstrip_head by simp
  then show ?thesis by (rule lstrip_self [OF disjI2])
qed

lemma strip_idem: "strip (strip v) = strip v"
  by (simp add: strip_def lstrip_rstrip_lstrip rstrip_idem)

lemma set_strip: "set (strip v) \<subseteq> set v"
proof -
  have "set (rstrip x) \<subseteq> set x" for x
    using set_dropWhileD [of _ isspace "rev x"] by (auto simp: rstrip_def)
  moreover have "set (lstrip x) \<subseteq> set x" for x
    using set_dropWhileD [of _ isspace x] by (auto simp: lstrip_def)
  ultimately show ?thesis unfolding strip_def by blast
qed

lemma universal_newlines_id: "CHR 0x0D \<notin> set v \<Longrightarrow> universal_newlines v = v"
  by (induction v rule: universal_newlines.induct) auto

lemmas string_defs = strip_def lstrip_def rstrip_def isspace_def lower_def lower_char_def
  startswith_def startswith_ci_def path_join_def

subsection \<open>The UUID store across restarts\<close>

text \<open>
  Claim C6. When the store holds a text file for the encoding, \<open>load_or_generate_uuid\<close>
  returns the UUID in it (the text without surrounding whitespace, which is the text
  itself for a file that this function wrote) and leaves the system as it was. When it
  holds nothing for the encoding, uuidgen runs and the file can be written, it returns
  the generated UUID and the store holds it afterwards, nothing else changed. And a
  second call with the same encoding returns the UUID the first call returned, on any
  system whose store holds what the first call left for that encoding: the same
  process, or a new one after a restart, whatever else differs. The UUID is taken to
  have no carriage return, which text mode would read back as a line feed.
\<close>

theorem load_or_generate_uuid_idempotent:
  "(files w (uuid_file_of b) = Some (File text) \<longrightarrow>
      load_or_generate_uuid_utils b w = (Return (strip (universal_newlines text)), w)
      \<and> (CHR 0x0D \<notin> set text \<and> strip text = text \<longrightarrow> load_or_generate_uuid_utils b w = (Return text, w)))
   \<and> (files w (uuid_file_of b) = None \<and> run w [''uuidgen'', ''-r''] = Completed 0 out err
        \<and> write_error w (uuid_file_of b) = None \<longrightarrow>
      load_or_generate_uuid_utils b w
        = (Return (strip out), w\<lparr>files := (files w)(uuid_file_of b \<mapsto> File (strip out))\<rparr>))
   \<and> (load_or_generate_uuid_utils b w = (Return u, w') \<and> CHR 0x0D \<notin> set u
        \<and> files w'' (uuid_file_of b) = files w' (uuid_file_of b) \<longrightarrow>
      load_or_generate_uuid_utils b w'' = (Return u, w''))"
proof (intro conjI impI)
  assume "files w (uuid_file_of b) = Some (File text)"
  then show "load_or_generate_uuid_utils b w = (Return (strip (universal_newlines text)), w)"
    by (simp add: load_or_generate_uuid_utils_def)
  then show "load_or_generate_uuid_utils b w = (Return text, w)"
    if "CHR 0x0D \<notin> set text \<and> strip text = text"
    using that by (simp add: universal_newlines_id)
next
  assume "files w (uuid_file_of b) = None \<and> run w [''uuidgen'', ''-r''] = Completed 0 out err
        \<and> write_error w (uuid_file_of b) = None"
  then show "load_or_generate_uuid_utils b w
        = (Return (strip out), w\<lparr>files := (files w)(uuid_file_of b \<mapsto> File (strip out))\<rparr>)"
    by (simp add: load_or_generate_uuid_utils_def Let_def)
next
  assume a: "load_or_generate_uuid_utils b w = (Return u, w') \<and> CHR 0x0D \<notin> set u
        \<and> files w'' (uuid_file_of b) = files w' (uuid_file_of b)"
  then have "\<exists>text. files w' (uuid_file_of b) = Some (File text) \<and> strip (universal_newlines text) = u"
  proof (cases "files w (uuid_file_of b)")
    case None
    with a obtain out where "u = strip out" "files w' (uuid_file_of b) = Some (File (strip out))"
      by (auto simp: load_or_generate_uuid_utils_def die_def Let_def
            split: proc.splits if_splits option.splits oserror.splits)
    moreover from this a have "universal_newlines (strip out) = strip out"
      by (simp add: universal_newlines_id)
    ultimately show ?thesis by (simp add: strip_idem)
  next
    case (Some n)
    with a show ?thesis
      by (cases n) (auto simp: load_or_generate_uuid_utils_def die_def)
  qed
  then show "load_or_generate_uuid_utils b w'' = (Return u, w'')"
    using a by (auto simp: load_or_generate_uuid_utils_def)
qed

theorem load_or_generate_uuid_idempotent_witness:
  "load_or_generate_uuid_utils ''677074'' example_world
     = (Return ''123e4567-e89b-42d3-a456-426614174000'',
        example_world\<lparr>files := [''/tmp/gentoo-install/uuids/677074''
                                   \<mapsto> File ''123e4567-e89b-42d3-a456-426614174000'']\<rparr>)
   \<and> load_or_generate_uuid_utils ''677074''
        (example_world\<lparr>files := [''/tmp/gentoo-install/uuids/677074''
                                   \<mapsto> File ''123e4567-e89b-42d3-a456-426614174000''],
                        run := (\<lambda>cmd. NotInstalled)\<rparr>)
     = (Return ''123e4567-e89b-42d3-a456-426614174000'',
        example_world\<lparr>files := [''/tmp/gentoo-install/uuids/677074''
                                   \<mapsto> File ''123e4567-e89b-42d3-a456-426614174000''],
                        run := (\<lambda>cmd. NotInstalled)\<rparr>)"
proof -
  define out where "out = ''123e4567-e89b-42d3-a456-426614174000'' @ [CHR 0x0A]"
  define w' where "w' = example_world\<lparr>files := [''/tmp/gentoo-install/uuids/677074''
                                   \<mapsto> File ''123e4567-e89b-42d3-a456-426614174000'']\<rparr>"
  define w'' where "w'' = w'\<lparr>run := (\<lambda>cmd. NotInstalled)\<rparr>"
  have f: "uuid_file_of ''677074'' = ''/tmp/gentoo-install/uuids/677074''"
    by (simp add: uuid_file_of_def STORAGE_DIR_def path_join_def)
  have s: "strip out = ''123e4567-e89b-42d3-a456-426614174000''"
    by (simp add: out_def string_defs)
  have h: "files example_world (uuid_file_of ''677074'') = None
      \<and> run example_world [''uuidgen'', ''-r''] = Completed 0 out []
      \<and> write_error example_world (uuid_file_of ''677074'') = None"
    by (simp add: example_world_def example_run_def out_def)
  have 1: "load_or_generate_uuid_utils ''677074'' example_world
     = (Return ''123e4567-e89b-42d3-a456-426614174000'', w')"
    using load_or_generate_uuid_idempotent [of example_world "''677074''" _ out "[]"] h
    by (simp add: f s w'_def example_world_def)
  have "load_or_generate_uuid_utils ''677074'' w'' = (Return ''123e4567-e89b-42d3-a456-426614174000'', w'')"
    using load_or_generate_uuid_idempotent [of example_world "''677074''" _ _ _
        "''123e4567-e89b-42d3-a456-426614174000''" w' w''] 1
    by (simp add: w''_def)
  with 1 show ?thesis by (simp add: w''_def w'_def)
qed

subsection \<open>Resolving a raw device\<close>

lemma first_alias_Some:
  "first_alias w r names = Some a \<Longrightarrow>
     (\<exists>n \<in> set names. a = path_join ''/dev/disk/by-id'' n) \<and> realpath w a = r"
  by (induction names) (auto simp: Let_def split: if_splits)

lemma first_alias_None:
  "(first_alias w r names = None) = (\<forall>n \<in> set names. realpath w (path_join ''/dev/disk/by-id'' n) \<noteq> r)"
  by (induction names) (auto simp: Let_def)

lemma split_colon_append:
  "CHR '':'' \<notin> set k \<Longrightarrow> split_colon (k @ '':'' @ v) = (k, v)"
  by (induction k) (auto simp: split_colon_def)

lemma search_devname_empty: "search_devname [] = None"
  by (simp add: search_devname_def devname_at_def startswith_def)

text \<open>
  Where \<open>/dev/disk/by-id\<close> can be listed, the round trip holds: for an identifier whose
  resolve entry is \<open>device:p\<close>, \<open>resolve_device_by_id\<close> returns a path and leaves the
  resolve table, the cache and the system as they were, so a second query returns the
  same path. The path is an entry of \<open>/dev/disk/by-id\<close> with the real path of \<open>p\<close> when
  there is such an entry, and \<open>p\<close> itself when there is none.
\<close>

lemma resolve_raw_device_listed:
  "RESOLVABLE w id_val = Some (''device:'' @ p) \<and> listdir w ''/dev/disk/by-id'' = Some names \<longrightarrow>
     (\<exists>d. resolve_device_by_id id_val w = (Return d, w)
          \<and> resolve_device_by_id id_val (snd (resolve_device_by_id id_val w)) = (Return d, w)
          \<and> (if \<exists>n \<in> set names. realpath w (path_join ''/dev/disk/by-id'' n) = realpath w p
              then (\<exists>n \<in> set names. d = path_join ''/dev/disk/by-id'' n) \<and> realpath w d = realpath w p
              else d = p))"
proof
  assume a: "RESOLVABLE w id_val = Some (''device:'' @ p) \<and> listdir w ''/dev/disk/by-id'' = Some names"
  have sc: "split_colon (''device:'' @ p) = (''device'', p)"
    using split_colon_append [of "''device''" p] by simp
  define d where "d = (case first_alias w (realpath w p) names of Some full_path \<Rightarrow> full_path | None \<Rightarrow> p)"
  have r: "resolve_device_by_id id_val w = (Return d, w)"
    using a sc by (simp add: resolve_device_by_id_def canonicalize_device_def d_def split: option.splits)
  have "if \<exists>n \<in> set names. realpath w (path_join ''/dev/disk/by-id'' n) = realpath w p
        then (\<exists>n \<in> set names. d = path_join ''/dev/disk/by-id'' n) \<and> realpath w d = realpath w p
        else d = p"
  proof (cases "first_alias w (realpath w p) names")
    case None
    then show ?thesis using first_alias_None [of w "realpath w p" names] by (simp add: d_def)
  next
    case (Some a)
    then show ?thesis
      using first_alias_Some [OF Some] first_alias_None [of w "realpath w p" names] by (auto simp: d_def)
  qed
  with r show "\<exists>d. resolve_device_by_id id_val w = (Return d, w)
          \<and> resolve_device_by_id id_val (snd (resolve_device_by_id id_val w)) = (Return d, w)
          \<and> (if \<exists>n \<in> set names. realpath w (path_join ''/dev/disk/by-id'' n) = realpath w p
              then (\<exists>n \<in> set names. d = path_join ''/dev/disk/by-id'' n) \<and> realpath w d = realpath w p
              else d = p)"
    by (intro exI [of _ d]) simp
qed

lemma resolve_raw_device_listed_example:
  "resolve_device_by_id ''disk'' example_world = (Return ''/dev/disk/by-id/ata-DISK'', example_world)
   \<and> resolve_device_by_id ''usb'' example_world = (Return ''/dev/sdb'', example_world)"
proof -
  have 1: "RESOLVABLE example_world ''disk'' = Some (''device:'' @ ''/dev/sda'')
      \<and> listdir example_world ''/dev/disk/by-id'' = Some [''ata-DISK'']"
    and 2: "RESOLVABLE example_world ''usb'' = Some (''device:'' @ ''/dev/sdb'')
      \<and> listdir example_world ''/dev/disk/by-id'' = Some [''ata-DISK'']"
    by (simp_all add: example_world_def)
  have r: "realpath example_world (path_join ''/dev/disk/by-id'' ''ata-DISK'') = ''/dev/sda''"
     "realpath example_world ''/dev/sda'' = ''/dev/sda''"
     "realpath example_world ''/dev/sdb'' = ''/dev/sdb''"
    by (simp_all add: example_world_def path_join_def)
  from resolve_raw_device_listed [of example_world "''disk''" "''/dev/sda''" "[''ata-DISK'']"] 1 r
  have a: "resolve_device_by_id ''disk'' example_world
            = (Return (path_join ''/dev/disk/by-id'' ''ata-DISK''), example_world)"
    by auto
  from resolve_raw_device_listed [of example_world "''usb''" "''/dev/sdb''" "[''ata-DISK'']"] 2 r
  have b: "resolve_device_by_id ''usb'' example_world = (Return ''/dev/sdb'', example_world)"
    by auto
  from a b show ?thesis by (simp add: path_join_def)
qed

text \<open>
  Claim C8. The round trip fails on a system that has no directory \<open>/dev/disk/by-id\<close>,
  where no alias exists and the path itself is the answer: \<open>canonicalize_device\<close> calls
  \<open>os.listdir\<close> outside any \<open>try\<close>, so resolving the raw device \<open>/dev/sdb\<close>, registered
  as \<open>device:/dev/sdb\<close>, raises \<open>FileNotFoundError\<close> and returns no path.
\<close>

theorem resolve_raw_device_without_by_id:
  "RESOLVABLE example_world_without_by_id ''usb'' = Some ''device:/dev/sdb''
   \<and> listdir example_world_without_by_id ''/dev/disk/by-id'' = None
   \<and> resolve_device_by_id ''usb'' example_world_without_by_id
       = (Raise FileNotFoundError, example_world_without_by_id)"
  by (simp add: resolve_device_by_id_def canonicalize_device_def split_colon_def
        example_world_without_by_id_def example_world_def)

subsection \<open>Resolving what no probe knows\<close>

text \<open>
  Claim C9. When the probe of the locator kind runs and its output has no match,
  \<open>resolve_device_by_id\<close> ends in \<open>die\<close>, that is \<open>SystemExit\<close> with code 1 and a
  "Could not find ..." message; it returns no path and raises nothing else.
  For \<open>partuuid\<close> and \<open>uuid\<close>: there is no symlink for the UUID under
  \<open>/dev/disk/by-partuuid\<close> or \<open>/dev/disk/by-uuid\<close>, and blkid exits with a non-zero
  status or prints no \<open>DEVNAME\<close> line. For \<open>ptuuid\<close>: the lsblk output, cached or
  fetched by this call, has no row with that table UUID and an empty partition UUID
  (an empty output is reported as an empty cache). For \<open>mdadm\<close>: the scan lists no
  array with the transformed UUID.
\<close>

theorem resolve_unmatched_dies:
  "(RESOLVABLE w id_val = Some (kind @ '':'' @ v)
      \<and> (kind, dir, field) \<in> {(''partuuid'', ''/dev/disk/by-partuuid/'', ''PARTUUID''),
                               (''uuid'', ''/dev/disk/by-uuid/'', ''UUID'')}
      \<and> files w (dir @ v) = None
      \<and> run w [''blkid'', ''-g'', ''-c'', ''/dev/null''] = Completed 0 gc_out gc_err
      \<and> run w [''blkid'', ''-c'', ''/dev/null'', ''-o'', ''export'', ''-t'', field @ ''='' @ v]
           = Completed returncode out err
      \<and> (returncode = 0 \<longrightarrow> search_devname out = None)
    \<longrightarrow> resolve_device_by_id id_val w
          = (Raise (SystemExit 1 (blkid_not_found_message (field @ ''='' @ v))), w))
   \<and> (RESOLVABLE w id_val = Some (''ptuuid:'' @ v)
      \<and> (CACHED_LSBLK_OUTPUT w = Some out
          \<or> CACHED_LSBLK_OUTPUT w = None
             \<and> run w [''lsblk'', ''--all'', ''--path'', ''--pairs'', ''--output'', ''NAME,PTUUID,PARTUUID'']
                 = Completed 0 out err)
      \<and> first_match (lsblk_at (lower v)) (lower out) = None
    \<longrightarrow> resolve_device_by_id id_val w
          = (Raise (SystemExit 1 (if out = [] then ''lsblk output cache is empty.''
                                  else ptuuid_not_found_message (lower v))),
             w\<lparr>CACHED_LSBLK_OUTPUT := Some out\<rparr>))
   \<and> (RESOLVABLE w id_val = Some (''mdadm:'' @ v)
      \<and> run w [''mdadm'', ''--examine'', ''--scan''] = Completed 0 out err
      \<and> first_match (mdadm_at (uuid_to_mduuid v)) (lower out) = None
    \<longrightarrow> resolve_device_by_id id_val w
          = (Raise (SystemExit 1 (mduuid_not_found_message (uuid_to_mduuid v))), w))"
proof (intro conjI impI)
  assume a: "RESOLVABLE w id_val = Some (kind @ '':'' @ v)
      \<and> (kind, dir, field) \<in> {(''partuuid'', ''/dev/disk/by-partuuid/'', ''PARTUUID''),
                               (''uuid'', ''/dev/disk/by-uuid/'', ''UUID'')}
      \<and> files w (dir @ v) = None
      \<and> run w [''blkid'', ''-g'', ''-c'', ''/dev/null''] = Completed 0 gc_out gc_err
      \<and> run w [''blkid'', ''-c'', ''/dev/null'', ''-o'', ''export'', ''-t'', field @ ''='' @ v]
           = Completed returncode out err
      \<and> (returncode = 0 \<longrightarrow> search_devname out = None)"
  then have b: "get_device_by_blkid_field w field v = die (blkid_not_found_message (field @ ''='' @ v))"
    by (cases "returncode = 0")
       (simp_all add: get_device_by_blkid_field_def run_blkid_export_def Let_def search_devname_empty)
  from a have "kind = ''partuuid'' \<and> dir = ''/dev/disk/by-partuuid/'' \<and> field = ''PARTUUID''
      \<or> kind = ''uuid'' \<and> dir = ''/dev/disk/by-uuid/'' \<and> field = ''UUID''"
    by auto
  then show "resolve_device_by_id id_val w
          = (Raise (SystemExit 1 (blkid_not_found_message (field @ ''='' @ v))), w)"
  proof
    assume k: "kind = ''partuuid'' \<and> dir = ''/dev/disk/by-partuuid/'' \<and> field = ''PARTUUID''"
    have sc: "split_colon (''partuuid:'' @ v) = (''partuuid'', v)"
      using split_colon_append [of "''partuuid''" v] by simp
    show ?thesis
      using a b k sc
      by (simp add: resolve_device_by_id_def get_device_by_partuuid_def die_def)
  next
    assume k: "kind = ''uuid'' \<and> dir = ''/dev/disk/by-uuid/'' \<and> field = ''UUID''"
    have sc: "split_colon (''uuid:'' @ v) = (''uuid'', v)"
      using split_colon_append [of "''uuid''" v] by simp
    show ?thesis
      using a b k sc
      by (simp add: resolve_device_by_id_def get_device_by_uuid_def die_def)
  qed
next
  assume a: "RESOLVABLE w id_val = Some (''ptuuid:'' @ v)
      \<and> (CACHED_LSBLK_OUTPUT w = Some out
          \<or> CACHED_LSBLK_OUTPUT w = None
             \<and> run w [''lsblk'', ''--all'', ''--path'', ''--pairs'', ''--output'', ''NAME,PTUUID,PARTUUID'']
                 = Completed 0 out err)
      \<and> first_match (lsblk_at (lower v)) (lower out) = None"
  have sc: "split_colon (''ptuuid:'' @ v) = (''ptuuid'', v)"
    using split_colon_append [of "''ptuuid''" v] by simp
  have w: "CACHED_LSBLK_OUTPUT w = Some out \<Longrightarrow> w\<lparr>CACHED_LSBLK_OUTPUT := Some out\<rparr> = w"
    by simp
  have g: "get_device_by_ptuuid v w
          = (Raise (SystemExit 1 (if out = [] then ''lsblk output cache is empty.''
                                  else ptuuid_not_found_message (lower v))),
             w\<lparr>CACHED_LSBLK_OUTPUT := Some out\<rparr>)"
    using a w
    by (auto simp: get_device_by_ptuuid_def cache_lsblk_output_def die_def Let_def)
  show "resolve_device_by_id id_val w
          = (Raise (SystemExit 1 (if out = [] then ''lsblk output cache is empty.''
                                  else ptuuid_not_found_message (lower v))),
             w\<lparr>CACHED_LSBLK_OUTPUT := Some out\<rparr>)"
    using a sc g by (simp add: resolve_device_by_id_def)
next
  assume a: "RESOLVABLE w id_val = Some (''mdadm:'' @ v)
      \<and> run w [''mdadm'', ''--examine'', ''--scan''] = Completed 0 out err
      \<and> first_match (mdadm_at (uuid_to_mduuid v)) (lower out) = None"
  have sc: "split_colon (''mdadm:'' @ v) = (''mdadm'', v)"
    using split_colon_append [of "''mdadm''" v] by simp
  show "resolve_device_by_id id_val w
          = (Raise (SystemExit 1 (mduuid_not_found_message (uuid_to_mduuid v))), w)"
    using a sc by (simp add: resolve_device_by_id_def get_device_by_mdadm_uuid_def die_def Let_def)
qed

theorem resolve_unmatched_dies_witness:
  "resolve_device_by_id ''part_root'' example_world
     = (Raise (SystemExit 1 (blkid_not_found_message ''PARTUUID=0f0f'')), example_world)
   \<and> resolve_device_by_id ''gpt'' example_world
     = (Raise (SystemExit 1 (ptuuid_not_found_message ''cd34'')),
        example_world\<lparr>CACHED_LSBLK_OUTPUT :=
          Some (''NAME='' @ [CHR 0x22] @ ''/dev/sda'' @ [CHR 0x22] @ '' PTUUID='' @ [CHR 0x22]
               @ ''AB12'' @ [CHR 0x22] @ '' PARTUUID='' @ [CHR 0x22, CHR 0x22, CHR 0x0A])\<rparr>)
   \<and> resolve_device_by_id ''raid'' example_world
     = (Raise (SystemExit 1 (mduuid_not_found_message ''aaaabbbb:::'')), example_world)"
proof -
  define out where "out = ''NAME='' @ [CHR 0x22] @ ''/dev/sda'' @ [CHR 0x22] @ '' PTUUID='' @ [CHR 0x22]
               @ ''AB12'' @ [CHR 0x22] @ '' PARTUUID='' @ [CHR 0x22, CHR 0x22, CHR 0x0A]"
  have 1: "RESOLVABLE example_world ''part_root'' = Some (''partuuid'' @ '':'' @ ''0f0f'')
      \<and> (''partuuid'', ''/dev/disk/by-partuuid/'', ''PARTUUID'')
           \<in> {(''partuuid'', ''/dev/disk/by-partuuid/'', ''PARTUUID''),
               (''uuid'', ''/dev/disk/by-uuid/'', ''UUID'')}
      \<and> files example_world (''/dev/disk/by-partuuid/'' @ ''0f0f'') = None
      \<and> run example_world [''blkid'', ''-g'', ''-c'', ''/dev/null''] = Completed 0 [] []
      \<and> run example_world [''blkid'', ''-c'', ''/dev/null'', ''-o'', ''export'', ''-t'', ''PARTUUID'' @ ''='' @ ''0f0f'']
           = Completed 2 [] []
      \<and> ((2::nat) = 0 \<longrightarrow> search_devname [] = None)"
    by (simp add: example_world_def example_run_def)
  have 2: "RESOLVABLE example_world ''gpt'' = Some (''ptuuid:'' @ ''CD34'')
      \<and> (CACHED_LSBLK_OUTPUT example_world = Some out
          \<or> CACHED_LSBLK_OUTPUT example_world = None
             \<and> run example_world [''lsblk'', ''--all'', ''--path'', ''--pairs'', ''--output'', ''NAME,PTUUID,PARTUUID'']
                 = Completed 0 out [])
      \<and> first_match (lsblk_at (lower ''CD34'')) (lower out) = None"
  proof -
    have "first_match (lsblk_at (lower ''CD34'')) (lower out) = None"
      unfolding out_def by code_simp
    then show ?thesis
      by (simp add: example_world_def example_run_def out_def)
  qed
  have 3: "RESOLVABLE example_world ''raid'' = Some (''mdadm:'' @ ''aaaa-bbbb'')
      \<and> run example_world [''mdadm'', ''--examine'', ''--scan''] = Completed 0 [] []
      \<and> first_match (mdadm_at (uuid_to_mduuid ''aaaa-bbbb'')) (lower []) = None"
  proof -
    have "first_match (mdadm_at (uuid_to_mduuid ''aaaa-bbbb'')) (lower []) = None"
      by code_simp
    then show ?thesis
      by (simp add: example_world_def example_run_def)
  qed
  have l: "lower ''CD34'' = ''cd34''" and m: "uuid_to_mduuid ''aaaa-bbbb'' = ''aaaabbbb:::''"
    by code_simp+
  have a: "resolve_device_by_id ''part_root'' example_world
     = (Raise (SystemExit 1 (blkid_not_found_message ''PARTUUID=0f0f'')), example_world)"
    using resolve_unmatched_dies [of example_world "''part_root''" "''partuuid''" "''0f0f''"
        "''/dev/disk/by-partuuid/''" "''PARTUUID''" "[]" "[]" 2 "[]" "[]"] 1
    by simp
  have b: "resolve_device_by_id ''gpt'' example_world
     = (Raise (SystemExit 1 (ptuuid_not_found_message ''cd34'')),
        example_world\<lparr>CACHED_LSBLK_OUTPUT := Some out\<rparr>)"
    using resolve_unmatched_dies [of example_world "''gpt''" _ "''CD34''" _ _ _ _ _ out "[]"] 2 l
    by (simp add: out_def)
  have c: "resolve_device_by_id ''raid'' example_world
     = (Raise (SystemExit 1 (mduuid_not_found_message ''aaaabbbb:::'')), example_world)"
    using resolve_unmatched_dies [of example_world "''raid''" _ "''aaaa-bbbb''" _ _ _ _ _ "[]" "[]"] 3 m
    by simp
  from a b c show ?thesis by (simp add: out_def)
qed

end
